theory Spec2Isabelle
  imports Complex_Main "HOL-Library.Log_Nat"
begin

section \<open>JavaScript values\<close>

text \<open>
  The server actions of \<^verbatim>\<open>src/app/lib/actions.ts\<close> work on form text, on numbers obtained
  from it by coercion, and on the absent entry \<^verbatim>\<open>null\<close>. A JavaScript number is an IEEE 754
  double: a finite double is a rational, so a number is modelled as a rational, an infinity
  with its sign (\<open>True\<close> is negative) or NaN, and every arithmetic result is rounded to the
  nearest double, ties to even. The two zeros are identified: no zero passes the
  validation below, so its sign is never observed.
\<close>

datatype number = NaN | Infinity bool | Finite rat

definition pow2 :: "int \<Rightarrow> rat" where
  "pow2 k = (if 0 \<le> k then 2 ^ nat k else 1 / 2 ^ nat (- k))"

definition pow10 :: "int \<Rightarrow> rat" where
  "pow10 k = (if 0 \<le> k then 10 ^ nat k else 1 / 10 ^ nat (- k))"

definition ilog2 :: "rat \<Rightarrow> int" where
  \<comment> \<open>for \<open>0 < a\<close>: the exponent \<open>e\<close> with \<open>2^e \<le> a < 2^(e+1)\<close>\<close>
  "ilog2 a = (let (n, d) = quotient_of a; k = bitlen n - bitlen d
              in if pow2 k \<le> a then k else k - 1)"

definition round_half_even :: "rat \<Rightarrow> int" where
  "round_half_even x =
     (let f = \<lfloor>x\<rfloor>; d = x - of_int f
      in if d < 1 / 2 then f else if 1 / 2 < d then f + 1
         else if even f then f else f + 1)"

definition round_double :: "rat \<Rightarrow> number" where
  \<comment> \<open>53 significant bits, least exponent \<open>-1074\<close> (subnormals), overflow to infinity\<close>
  "round_double x =
     (if x = 0 then Finite 0
      else let a = \<bar>x\<bar>;
               p = max (ilog2 a - 52) (- 1074);
               r = of_int (round_half_even (a / pow2 p)) * pow2 p
           in if pow2 1024 \<le> r then Infinity (x < 0)
              else Finite (if x < 0 then - r else r))"

fun number_times :: "number \<Rightarrow> number \<Rightarrow> number" where
  "number_times NaN y = NaN"
| "number_times x NaN = NaN"
| "number_times (Infinity s) (Infinity t) = Infinity (s \<noteq> t)"
| "number_times (Infinity s) (Finite b) = (if b = 0 then NaN else Infinity (s \<noteq> (b < 0)))"
| "number_times (Finite a) (Infinity t) = (if a = 0 then NaN else Infinity ((a < 0) \<noteq> t))"
| "number_times (Finite a) (Finite b) = round_double (a * b)"

fun number_le :: "number \<Rightarrow> number \<Rightarrow> bool" where
  "number_le NaN y = False"
| "number_le x NaN = False"
| "number_le (Infinity s) (Infinity t) = (s \<or> \<not> t)"
| "number_le (Infinity s) (Finite b) = s"
| "number_le (Finite a) (Infinity t) = (\<not> t)"
| "number_le (Finite a) (Finite b) = (a \<le> b)"

fun number_less :: "number \<Rightarrow> number \<Rightarrow> bool" where
  "number_less NaN y = False"
| "number_less x NaN = False"
| "number_less (Infinity s) (Infinity t) = (s \<and> \<not> t)"
| "number_less (Infinity s) (Finite b) = s"
| "number_less (Finite a) (Infinity t) = (\<not> t)"
| "number_less (Finite a) (Finite b) = (a < b)"

fun Number_isInteger :: "number \<Rightarrow> bool" where
  "Number_isInteger (Finite a) = (a = of_int \<lfloor>a\<rfloor>)"
| "Number_isInteger x = False"

text \<open>
  A value as the handlers meet it: \<^verbatim>\<open>FormData.get\<close> returns a string, a \<^verbatim>\<open>File\<close> or
  \<^verbatim>\<open>null\<close>; a property that an object lacks reads as \<^verbatim>\<open>undefined\<close>; coercion produces
  numbers. Text is a list of 8-bit characters.
\<close>

datatype js_value = JUndefined | JNull | JString string | JNumber number | JFile

subsection \<open>String to number\<close>

text \<open>
  \<^verbatim>\<open>Number(s)\<close> on a string follows the grammar \<^verbatim>\<open>StringNumericLiteral\<close> of ECMAScript:
  white space is trimmed, the empty string is \<open>0\<close>, then comes a signed decimal literal
  (digits, optional fraction, optional exponent), \<^verbatim>\<open>Infinity\<close>, or an unsigned
  hexadecimal, octal or binary integer; anything else is NaN.
\<close>

definition StrWhiteSpaceChar :: "char \<Rightarrow> bool" where
  "StrWhiteSpaceChar c = (of_char c \<in> set [9, 10, 11, 12, 13, 32, 160 :: nat])"

definition trim :: "string \<Rightarrow> string" where
  "trim s = rev (dropWhile StrWhiteSpaceChar (rev (dropWhile StrWhiteSpaceChar s)))"

definition digit_of :: "char \<Rightarrow> nat option" where
  "digit_of c =
     (let n = (of_char c :: nat)
      in if 48 \<le> n \<and> n \<le> 57 then Some (n - 48)
         else if 97 \<le> n \<and> n \<le> 102 then Some (n - 87)
         else if 65 \<le> n \<and> n \<le> 70 then Some (n - 55)
         else None)"

definition is_digit :: "nat \<Rightarrow> char \<Rightarrow> bool" where
  "is_digit base c = (case digit_of c of None \<Rightarrow> False | Some d \<Rightarrow> d < base)"

definition digits_value :: "nat \<Rightarrow> string \<Rightarrow> nat" where
  "digits_value base ds =
     foldl (\<lambda>acc c. acc * base + (case digit_of c of None \<Rightarrow> 0 | Some d \<Rightarrow> d)) 0 ds"

definition NonDecimalIntegerLiteral :: "nat \<Rightarrow> string \<Rightarrow> number" where
  "NonDecimalIntegerLiteral base ds =
     (if ds \<noteq> [] \<and> list_all (is_digit base) ds
      then round_double (of_nat (digits_value base ds)) else NaN)"

definition SignedInteger :: "string \<Rightarrow> int option" where
  "SignedInteger t =
     (let (neg, ds) = (case t of [] \<Rightarrow> (False, [])
                       | c # u \<Rightarrow> if c = CHR ''+'' then (False, u)
                                  else if c = CHR ''-'' then (True, u) else (False, t))
      in if ds \<noteq> [] \<and> list_all (is_digit 10) ds
         then Some (if neg then - int (digits_value 10 ds) else int (digits_value 10 ds))
         else None)"

definition ExponentPart :: "string \<Rightarrow> int option" where
  "ExponentPart r =
     (case r of [] \<Rightarrow> Some 0
      | c # t \<Rightarrow> if c = CHR ''e'' \<or> c = CHR ''E'' then SignedInteger t else None)"

definition StrUnsignedDecimalLiteral :: "string \<Rightarrow> rat option" where
  "StrUnsignedDecimalLiteral u =
     (let ip = takeWhile (is_digit 10) u;
          r1 = dropWhile (is_digit 10) u;
          (fp, r2) = (case r1 of [] \<Rightarrow> ([], [])
                      | c # t \<Rightarrow> if c = CHR ''.''
                                 then (takeWhile (is_digit 10) t, dropWhile (is_digit 10) t)
                                 else ([], r1))
      in if ip = [] \<and> fp = [] then None
         else (case ExponentPart r2 of None \<Rightarrow> None
               | Some e \<Rightarrow>
                   Some (of_nat (digits_value 10 (ip @ fp)) * pow10 (e - int (length fp)))))"

definition StrDecimalLiteral :: "string \<Rightarrow> number" where
  "StrDecimalLiteral t =
     (let (neg, u) = (case t of [] \<Rightarrow> (False, [])
                      | c # v \<Rightarrow> if c = CHR ''+'' then (False, v)
                                 else if c = CHR ''-'' then (True, v) else (False, t))
      in if u = ''Infinity'' then Infinity neg
         else (case StrUnsignedDecimalLiteral u of None \<Rightarrow> NaN
               | Some q \<Rightarrow> round_double (if neg then - q else q)))"

definition StringToNumber :: "string \<Rightarrow> number" where
  "StringToNumber s =
     (let t = trim s
      in if t = [] then Finite 0
         else if take 2 t = ''0x'' \<or> take 2 t = ''0X'' then NonDecimalIntegerLiteral 16 (drop 2 t)
         else if take 2 t = ''0o'' \<or> take 2 t = ''0O'' then NonDecimalIntegerLiteral 8 (drop 2 t)
         else if take 2 t = ''0b'' \<or> take 2 t = ''0B'' then NonDecimalIntegerLiteral 2 (drop 2 t)
         else StrDecimalLiteral t)"

fun ToNumber :: "js_value \<Rightarrow> number" where
  "ToNumber JUndefined = NaN"
| "ToNumber JNull = Finite 0"
| "ToNumber (JString s) = StringToNumber s"
| "ToNumber (JNumber n) = n"
| "ToNumber JFile = StringToNumber ''[object File]''"

definition js_times :: "js_value \<Rightarrow> js_value \<Rightarrow> js_value" where
  \<comment> \<open>the operator \<^verbatim>\<open>*\<close>\<close>
  "js_times a b = JNumber (number_times (ToNumber a) (ToNumber b))"

definition split_on :: "char \<Rightarrow> string \<Rightarrow> string list" where
  \<comment> \<open>\<^verbatim>\<open>s.split(c)\<close> for a one-character separator\<close>
  "split_on c s =
     foldr (\<lambda>x acc. if x = c then [] # acc
                     else (case acc of [] \<Rightarrow> [[x]] | w # ws \<Rightarrow> (x # w) # ws)) s [[]]"

definition array_at :: "string list \<Rightarrow> nat \<Rightarrow> js_value" where
  \<comment> \<open>\<^verbatim>\<open>xs[i]\<close>, which is \<^verbatim>\<open>undefined\<close> out of range\<close>
  "array_at xs i = (if i < length xs then JString (xs ! i) else JUndefined)"

section \<open>The validation library\<close>

text \<open>
  The schemas are built with zod 3 (\<^verbatim>\<open>z.object\<close>, \<^verbatim>\<open>z.string\<close>, \<^verbatim>\<open>z.coerce.number\<close>,
  \<^verbatim>\<open>z.enum\<close>, the parameter \<^verbatim>\<open>invalid_type_error\<close>). The library is not part of the
  repository; the part of it that the schemas exercise is written out here, function by
  function: the type of a parsed value, the default English messages, the message chosen
  by a schema built with \<^verbatim>\<open>invalid_type_error\<close>, the three parsers, the object parser,
  \<^verbatim>\<open>omit\<close>, \<^verbatim>\<open>safeParse\<close> and \<^verbatim>\<open>flatten\<close>.
\<close>

definition getParsedType :: "js_value \<Rightarrow> string" where
  "getParsedType data =
     (case data of
        JUndefined \<Rightarrow> ''undefined''
      | JNull \<Rightarrow> ''null''
      | JString s \<Rightarrow> ''string''
      | JNumber n \<Rightarrow> (if n = NaN then ''nan'' else ''number'')
      | JFile \<Rightarrow> ''object'')"

datatype ZodIssueCode = invalid_type | invalid_enum_value | too_small

record ZodIssue =
  code :: ZodIssueCode
  path :: "string list"
  message :: string

definition joinValues :: "string list \<Rightarrow> string" where
  \<comment> \<open>each value in single quotes, joined by a bar between two spaces\<close>
  "joinValues vs =
     (case map (\<lambda>v. [CHR 0x27] @ v @ [CHR 0x27]) vs of
        [] \<Rightarrow> []
      | q # qs \<Rightarrow> foldl (\<lambda>acc x. acc @ '' | '' @ x) q qs)"

definition default_invalid_type :: "string \<Rightarrow> string \<Rightarrow> string" where
  \<comment> \<open>the default error map at \<^verbatim>\<open>invalid_type\<close>\<close>
  "default_invalid_type expected received =
     (if received = ''undefined'' then ''Required''
      else ''Expected '' @ expected @ '', received '' @ received)"

definition default_invalid_enum_value :: "string list \<Rightarrow> string \<Rightarrow> string" where
  \<comment> \<open>the default error map at \<^verbatim>\<open>invalid_enum_value\<close>\<close>
  "default_invalid_enum_value options received =
     ''Invalid enum value. Expected '' @ joinValues options @ '', received '' @
       [CHR 0x27] @ received @ [CHR 0x27]"

definition schemaErrorMap :: "string option \<Rightarrow> ZodIssueCode \<Rightarrow> js_value \<Rightarrow> string \<Rightarrow> string" where
  \<comment> \<open>the error map of a schema created with the parameter \<^verbatim>\<open>invalid_type_error\<close> only
      (\<open>None\<close>: created without parameters); the last argument is the default message\<close>
  "schemaErrorMap invalid_type_error c data defaultError =
     (if c \<noteq> invalid_type then defaultError
      else if data = JUndefined then defaultError
      else (case invalid_type_error of None \<Rightarrow> defaultError | Some m \<Rightarrow> m))"

datatype ZodNumberCheck = MinCheck number bool string
  \<comment> \<open>kind \<^verbatim>\<open>min\<close>: bound, inclusive, message; \<^verbatim>\<open>gt(v, {message})\<close> is \<open>MinCheck v False message\<close>\<close>

datatype ZodType =
    ZodString "string option"
  | ZodNumber bool "ZodNumberCheck list" "string option"
  | ZodEnum "string list" "string option"
  \<comment> \<open>\<open>ZodString invalid_type_error\<close>, \<open>ZodNumber coerce checks invalid_type_error\<close>,
      \<open>ZodEnum values invalid_type_error\<close>\<close>

datatype SyncParseReturnType = INVALID | DIRTY js_value | OK js_value

definition ZodString_parse ::
  "string option \<Rightarrow> string list \<Rightarrow> js_value \<Rightarrow> SyncParseReturnType \<times> ZodIssue list" where
  "ZodString_parse ite p data =
     (let parsedType = getParsedType data
      in if parsedType \<noteq> ''string''
         then (INVALID,
               [\<lparr>code = invalid_type, path = p,
                 message = schemaErrorMap ite invalid_type data
                             (default_invalid_type ''string'' parsedType)\<rparr>])
         else (OK data, []))"

fun run_checks :: "ZodNumberCheck list \<Rightarrow> string list \<Rightarrow> number \<Rightarrow> ZodIssue list" where
  "run_checks [] p n = []"
| "run_checks (MinCheck v inclusive msg # cs) p n =
     (let tooSmall = (if inclusive then number_less n v else number_le n v)
      in (if tooSmall then [\<lparr>code = too_small, path = p, message = msg\<rparr>] else [])
         @ run_checks cs p n)"

definition ZodNumber_parse ::
  "bool \<Rightarrow> ZodNumberCheck list \<Rightarrow> string option \<Rightarrow> string list \<Rightarrow> js_value
     \<Rightarrow> SyncParseReturnType \<times> ZodIssue list" where
  "ZodNumber_parse coerce checks ite p input =
     (let data = (if coerce then JNumber (ToNumber input) else input);
          parsedType = getParsedType data
      in if parsedType \<noteq> ''number''
         then (INVALID,
               [\<lparr>code = invalid_type, path = p,
                 message = schemaErrorMap ite invalid_type data
                             (default_invalid_type ''number'' parsedType)\<rparr>])
         else (let issues = run_checks checks p (ToNumber data)
               in (if issues = [] then OK data else DIRTY data, issues)))"

definition ZodEnum_parse ::
  "string list \<Rightarrow> string option \<Rightarrow> string list \<Rightarrow> js_value
     \<Rightarrow> SyncParseReturnType \<times> ZodIssue list" where
  "ZodEnum_parse vs ite p data =
     (case data of
        JString s \<Rightarrow>
          (if s \<notin> set vs
           then (INVALID,
                 [\<lparr>code = invalid_enum_value, path = p,
                   message = schemaErrorMap ite invalid_enum_value data
                               (default_invalid_enum_value vs s)\<rparr>])
           else (OK data, []))
      | _ \<Rightarrow>
          (INVALID,
           [\<lparr>code = invalid_type, path = p,
             message = schemaErrorMap ite invalid_type data
                         (default_invalid_type (joinValues vs) (getParsedType data))\<rparr>]))"

fun ZodType_parse ::
  "ZodType \<Rightarrow> string list \<Rightarrow> js_value \<Rightarrow> SyncParseReturnType \<times> ZodIssue list" where
  "ZodType_parse (ZodString ite) p data = ZodString_parse ite p data"
| "ZodType_parse (ZodNumber coerce checks ite) p data = ZodNumber_parse coerce checks ite p data"
| "ZodType_parse (ZodEnum vs ite) p data = ZodEnum_parse vs ite p data"

type_synonym ZodObject = "(string \<times> ZodType) list"
  \<comment> \<open>the shape: the keys in declaration order, each with its schema\<close>

type_synonym js_object = "(string \<times> js_value) list"

definition get_prop :: "js_object \<Rightarrow> string \<Rightarrow> js_value" where
  \<comment> \<open>\<^verbatim>\<open>obj[key]\<close>\<close>
  "get_prop obj key = (case map_of obj key of None \<Rightarrow> JUndefined | Some v \<Rightarrow> v)"

definition omit :: "string list \<Rightarrow> ZodObject \<Rightarrow> ZodObject" where
  \<comment> \<open>\<^verbatim>\<open>schema.omit(ks)\<close>: the keys set in \<open>ks\<close> are dropped\<close>
  "omit ks shape = filter (\<lambda>(key, t). key \<notin> set ks) shape"

datatype SafeParseReturnType = Success js_object | Failure "ZodIssue list"

definition ZodObject_parse ::
  "ZodObject \<Rightarrow> js_object \<Rightarrow> (string \<times> SyncParseReturnType \<times> ZodIssue list) list" where
  \<comment> \<open>every key of the shape is parsed, in order, at the path of its name\<close>
  "ZodObject_parse shape data = map (\<lambda>(key, t). (key, ZodType_parse t [key] (get_prop data key))) shape"

definition safeParse :: "ZodObject \<Rightarrow> js_object \<Rightarrow> SafeParseReturnType" where
  \<comment> \<open>success needs every key valid; otherwise the issues of all keys are reported\<close>
  "safeParse shape data =
     (let pairs = ZodObject_parse shape data
      in if list_all (\<lambda>(key, r, issues). case r of OK v \<Rightarrow> True | _ \<Rightarrow> False) pairs
         then Success (map (\<lambda>(key, r, issues). (key, case r of OK v \<Rightarrow> v | _ \<Rightarrow> JUndefined)) pairs)
         else Failure (concat (map (\<lambda>(key, r, issues). issues) pairs)))"

definition fieldErrors :: "ZodIssue list \<Rightarrow> (string \<rightharpoonup> string list)" where
  \<comment> \<open>\<^verbatim>\<open>error.flatten().fieldErrors\<close>: the messages of the issues, grouped by the first
      element of their path\<close>
  "fieldErrors issues =
     foldl (\<lambda>m sub. case path sub of [] \<Rightarrow> m
                     | k # ks \<Rightarrow> m(k \<mapsto> (case m k of None \<Rightarrow> [] | Some ms \<Rightarrow> ms) @ [message sub]))
           Map.empty issues"

section \<open>The schemas of the source\<close>

definition FormSchema :: ZodObject where
  "FormSchema =
     [(''id'', ZodString None),
      (''customerId'', ZodString (Some ''PLEASE SELECT A CUSTOMER.'')),
      (''amount'',
         ZodNumber True [MinCheck (Finite 0) False ''PLEASE ENTER AN AMOUNT GREATER THAN $0.''] None),
      (''status'', ZodEnum [''pending'', ''paid''] (Some ''PLEASE SELECT AN INVOICE STATUS.'')),
      (''date'', ZodString None)]"

definition CreateInvoice :: ZodObject where
  "CreateInvoice = omit [''id'', ''date''] FormSchema"

definition UpdateInvoice :: ZodObject where
  "UpdateInvoice = omit [''id'', ''date''] FormSchema"

section \<open>The collaborators of the handlers\<close>

text \<open>
  A handler reads a form, reads the clock, sends one statement to the store, invalidates a
  cached path and redirects. The form is the list of the entries of a \<^verbatim>\<open>FormData\<close>, and
  \<^verbatim>\<open>get\<close> returns the first entry of a name, or \<^verbatim>\<open>null\<close>.
\<close>

datatype FormDataEntryValue = EntryString string | EntryFile

type_synonym FormData = "(string \<times> FormDataEntryValue) list"

definition FormData_get :: "FormData \<Rightarrow> string \<Rightarrow> js_value" where
  "FormData_get formData name =
     (case map_of formData name of
        None \<Rightarrow> JNull
      | Some (EntryString s) \<Rightarrow> JString s
      | Some EntryFile \<Rightarrow> JFile)"

text \<open>
  The three statements of the source, each with the values interpolated into it, in the
  order of the text: \<^verbatim>\<open>INSERT INTO invoices (customer_id, amount, status, date) VALUES (..)\<close>,
  \<^verbatim>\<open>UPDATE invoices SET customer_id = .., amount = .., status = .. WHERE id = ..\<close> and
  \<^verbatim>\<open>DELETE FROM invoices WHERE id = ..\<close>. A row of the table has the column \<^verbatim>\<open>id\<close>
  (here \<open>invoice_id\<close>) and the four columns of the INSERT.
\<close>

datatype statement =
    INSERT js_value js_value js_value js_value
  | UPDATE js_value js_value js_value string
  | DELETE string

record invoice =
  invoice_id :: string
  customer_id :: js_value
  amount :: js_value
  status :: js_value
  date :: js_value

datatype thrown = AuthError string | Error string
  \<comment> \<open>a raised value: an \<^verbatim>\<open>AuthError\<close> with its \<^verbatim>\<open>type\<close>, or any other error\<close>

datatype effect = Sql statement | RevalidatePath string

datatype 'a outcome = Returned 'a | Redirected string | Thrown thrown
  \<comment> \<open>how a call ends: \<^verbatim>\<open>redirect(path)\<close> leaves the handler without a return value\<close>

record env =
  Date_toISOString :: string
  store_raises :: "statement \<Rightarrow> invoice list \<Rightarrow> thrown option"
  store_new_id :: "invoice list \<Rightarrow> string"
  signIn :: "string \<Rightarrow> FormData \<Rightarrow> thrown option"

text \<open>
  The environment of one call: \<open>Date_toISOString\<close> is what \<^verbatim>\<open>new Date().toISOString()\<close>
  returns; \<open>store_raises\<close> says whether the store rejects a statement on the rows it holds,
  and with which error; \<open>store_new_id\<close> is the identifier the store gives an inserted row;
  \<open>signIn\<close> is the delegate of the sign-in, \<open>None\<close> when it returns normally.
  A statement that the store accepts acts on the rows as its text says. The invalidation
  \<^verbatim>\<open>revalidatePath\<close> completes, and is recorded as an effect after the statement.
\<close>

fun run_statement :: "env \<Rightarrow> statement \<Rightarrow> invoice list \<Rightarrow> invoice list" where
  "run_statement e (INSERT c a s d) rows =
     rows @ [\<lparr>invoice_id = store_new_id e rows, customer_id = c, amount = a, status = s, date = d\<rparr>]"
| "run_statement e (UPDATE c a s i) rows =
     map (\<lambda>r. if invoice_id r = i then r\<lparr>customer_id := c, amount := a, status := s\<rparr> else r) rows"
| "run_statement e (DELETE i) rows = filter (\<lambda>r. invoice_id r \<noteq> i) rows"

definition sql :: "env \<Rightarrow> statement \<Rightarrow> invoice list \<Rightarrow> thrown option \<times> invoice list" where
  "sql e st rows =
     (case store_raises e st rows of
        Some err \<Rightarrow> (Some err, rows)
      | None \<Rightarrow> (None, run_statement e st rows))"

section \<open>The handlers\<close>

record State =
  errors :: "(string \<rightharpoonup> string list) option"
  message :: "string option"

definition authenticate :: "env \<Rightarrow> string option \<Rightarrow> FormData \<Rightarrow> string option outcome" where
  "authenticate e prevState formData =
     (case signIn e ''credentials'' formData of
        None \<Rightarrow> Returned None
      | Some (AuthError ty) \<Rightarrow>
          (if ty = ''CredentialsSignin'' then Returned (Some ''INVALID CREDENTIALS.'')
           else Returned (Some ''SOMETHING WENT WRONG.''))
      | Some err \<Rightarrow> Thrown err)"

definition createInvoice ::
  "env \<Rightarrow> State \<Rightarrow> FormData \<Rightarrow> invoice list \<Rightarrow> State outcome \<times> effect list \<times> invoice list" where
  "createInvoice e prevState formData rows =
     (case safeParse CreateInvoice
             [(''customerId'', FormData_get formData ''customerId''),
              (''amount'', FormData_get formData ''amount''),
              (''status'', FormData_get formData ''status'')] of
        Failure error \<Rightarrow>
          (Returned \<lparr>errors = Some (fieldErrors error),
                     message = Some ''MISSING FIELDS. FAILED TO CREATE INVOICE.''\<rparr>, [], rows)
      | Success data \<Rightarrow>
          (let customerId = get_prop data ''customerId'';
               amount = get_prop data ''amount'';
               status = get_prop data ''status'';
               amountInCents = js_times amount (JNumber (Finite 100));
               date = array_at (split_on CHR ''T'' (Date_toISOString e)) 0;
               st = INSERT customerId amountInCents status date
           in case sql e st rows of
                (Some err, rows') \<Rightarrow>
                  (Returned \<lparr>errors = None,
                             message = Some ''DATABASE ERROR: FAILED TO CREATE INVOICE.''\<rparr>,
                   [Sql st], rows')
              | (None, rows') \<Rightarrow>
                  (Redirected ''/dashboard/invoices'',
                   [Sql st, RevalidatePath ''/dashboard/invoices''], rows')))"

definition updateInvoice ::
  "env \<Rightarrow> string \<Rightarrow> State \<Rightarrow> FormData \<Rightarrow> invoice list
     \<Rightarrow> State outcome \<times> effect list \<times> invoice list" where
  "updateInvoice e i prevState formData rows =
     (case safeParse UpdateInvoice
             [(''customerId'', FormData_get formData ''customerId''),
              (''amount'', FormData_get formData ''amount''),
              (''status'', FormData_get formData ''status'')] of
        Failure error \<Rightarrow>
          (Returned \<lparr>errors = Some (fieldErrors error),
                     message = Some ''MISSING FIELDS. FAILED TO UPDATE INVOICE.''\<rparr>, [], rows)
      | Success data \<Rightarrow>
          (let customerId = get_prop data ''customerId'';
               amount = get_prop data ''amount'';
               status = get_prop data ''status'';
               amountInCents = js_times amount (JNumber (Finite 100));
               st = UPDATE customerId amountInCents status i
           in case sql e st rows of
                (Some err, rows') \<Rightarrow>
                  (Returned \<lparr>errors = None,
                             message = Some ''DATABASE ERROR: FAILED TO UPDATE INVOICE.''\<rparr>,
                   [Sql st], rows')
              | (None, rows') \<Rightarrow>
                  (Redirected ''/dashboard/invoices'',
                   [Sql st, RevalidatePath ''/dashboard/invoices''], rows')))"

definition deleteInvoice ::
  "env \<Rightarrow> string \<Rightarrow> invoice list \<Rightarrow> State outcome \<times> effect list \<times> invoice list" where
  "deleteInvoice e i rows =
     (case sql e (DELETE i) rows of
        (None, rows') \<Rightarrow>
          (Returned \<lparr>errors = None, message = Some ''DELETED INVOICE.''\<rparr>,
           [Sql (DELETE i), RevalidatePath ''/dashboard/invoices''], rows')
      | (Some err, rows') \<Rightarrow>
          (Returned \<lparr>errors = None,
                     message = Some ''DATABASE ERROR: FAILED TO DELETE INVOICE.''\<rparr>,
           [Sql (DELETE i)], rows'))"

definition errors_for :: "State outcome \<Rightarrow> string \<Rightarrow> string list option" where
  \<comment> \<open>what a form reads as \<^verbatim>\<open>state.errors?.[field]\<close> from the state a handler returned\<close>
  "errors_for res field =
     (case res of
        Returned s \<Rightarrow> (case errors s of None \<Rightarrow> None | Some m \<Rightarrow> m field)
      | _ \<Rightarrow> None)"

section \<open>Concrete inputs\<close>

text \<open>
  The inputs at which the theorems below are instantiated: an environment whose store
  accepts every statement or rejects every statement with a given error, a form with the
  three text fields, and the state a form starts with.
\<close>

definition example_env :: "thrown option \<Rightarrow> thrown option \<Rightarrow> env" where
  "example_env store_failure signIn_failure =
     \<lparr>Date_toISOString = ''2024-03-05T10:11:12.123Z'',
      store_raises = (\<lambda>st rows. store_failure),
      store_new_id = (\<lambda>rows. ''new-id''),
      signIn = (\<lambda>provider formData. signIn_failure)\<rparr>"

definition example_form :: "string \<Rightarrow> string \<Rightarrow> string \<Rightarrow> FormData" where
  "example_form c a s =
     [(''customerId'', EntryString c), (''amount'', EntryString a), (''status'', EntryString s)]"

definition initialState :: State where
  "initialState = \<lparr>errors = None, message = None\<rparr>"

abbreviation effects_of :: "'a \<times> effect list \<times> invoice list \<Rightarrow> effect list" where
  "effects_of r \<equiv> fst (snd r)"

abbreviation rows_of :: "'a \<times> effect list \<times> invoice list \<Rightarrow> invoice list" where
  "rows_of r \<equiv> snd (snd r)"


section \<open>Facts about the library functions\<close>

subsection \<open>Rounding is exact on small integers\<close>

lemma round_half_even_of_int: "round_half_even (of_int z) = z"
  by (simp add: round_half_even_def)

lemma pow2_nonneg: "0 \<le> k \<Longrightarrow> pow2 k = 2 ^ nat k"
  by (simp add: pow2_def)

lemma ilog2_of_int:
  assumes "0 < m"
  shows "ilog2 (of_int m) = bitlen m - 1"
proof -
  have b: "1 \<le> bitlen m" using assms by (simp add: bitlen_alt_def)
  have "(2::int) ^ nat (bitlen m - 1) \<le> m" using bitlen_bounds [OF assms] by simp
  then have "(of_int ((2::int) ^ nat (bitlen m - 1)) :: rat) \<le> of_int m"
    by (simp only: of_int_le_iff)
  then have "pow2 (bitlen m - 1) \<le> of_int m" using b by (simp add: pow2_def)
  moreover have "bitlen 1 = 1" by (simp add: bitlen_alt_def)
  ultimately show ?thesis by (simp add: ilog2_def quotient_of_int)
qed

lemma bitlen_small:
  assumes "0 < m" "m < 2 ^ 53"
  shows "bitlen m \<le> 53"
proof -
  have "(2::int) ^ nat (bitlen m - 1) \<le> m" using bitlen_bounds [OF assms(1)] by simp
  then have "(2::int) ^ nat (bitlen m - 1) < 2 ^ 53" using assms(2) by linarith
  then have "nat (bitlen m - 1) < 53" by (simp only: power_strict_increasing_iff one_less_numeral_iff semiring_norm)
  then show ?thesis by linarith
qed

lemma round_double_of_int:
  assumes "0 < m" "m < 2 ^ 53"
  shows "round_double (of_int m) = Finite (of_int m)"
proof -
  have b1: "1 \<le> bitlen m" using assms(1) by (simp add: bitlen_alt_def)
  have b2: "bitlen m \<le> 53" by (rule bitlen_small [OF assms])
  define j where "j = nat (53 - bitlen m)"
  have p: "max (ilog2 (of_int m) - 52) (- 1074) = - int j"
    using b1 b2 by (simp add: ilog2_of_int [OF assms(1)] j_def)
  have pw: "pow2 (- int j) = 1 / 2 ^ j"
    by (cases "j = 0") (simp_all add: pow2_def)
  have q: "(of_int m :: rat) / pow2 (- int j) = of_int (m * 2 ^ j)"
    by (simp add: pw)
  have r: "of_int (round_half_even (of_int m / pow2 (- int j))) * pow2 (- int j) = (of_int m :: rat)"
    by (simp only: q round_half_even_of_int) (simp add: pw)
  have "(of_int m :: rat) < of_int (2 ^ 53)" using assms(2) by (simp only: of_int_less_iff)
  also have "\<dots> < pow2 1024" by (simp add: pow2_def)
  finally have big: "\<not> pow2 1024 \<le> (of_int m :: rat)" by simp
  have nz: "(of_int m :: rat) \<noteq> 0" "\<not> (of_int m :: rat) < 0" "\<bar>of_int m :: rat\<bar> = of_int m"
    using assms(1) by simp_all
  show ?thesis
    unfolding round_double_def Let_def nz p r using big nz by simp
qed

subsection \<open>Rounding is exact on every double, and positive above the least one\<close>

lemma pow2_powi: "pow2 k = 2 powi k"
  by (simp add: pow2_def power_int_def field_simps)

lemma pow2_pos: "0 < pow2 k"
  by (simp add: pow2_def)

lemma pow2_add: "pow2 (i + j) = pow2 i * pow2 j"
  by (simp add: pow2_powi power_int_add)

lemma pow2_mono: "i \<le> j \<Longrightarrow> pow2 i \<le> pow2 j"
  by (simp add: pow2_powi power_int_increasing)

lemma pow2_strict_mono: "i < j \<Longrightarrow> pow2 i < pow2 j"
  by (simp add: pow2_powi power_int_strict_increasing)

lemma pow2_int: "0 \<le> k \<Longrightarrow> pow2 k = of_int (2 ^ nat k)"
  by (simp add: pow2_def)

lemma ilog2_bounds:
  assumes "0 < a"
  shows "pow2 (ilog2 a) \<le> a \<and> a < pow2 (ilog2 a + 1)"
proof -
  obtain n d where q: "quotient_of a = (n, d)" by (cases "quotient_of a")
  have d: "0 < d" using quotient_of_denom_pos [OF q] .
  have a: "a = of_int n / of_int d" using quotient_of_div [OF q] .
  have n: "0 < n" using assms d by (simp add: a zero_less_divide_iff)
  define bn where "bn = bitlen n"
  define bd where "bd = bitlen d"
  have bn1: "1 \<le> bn" using n by (simp add: bn_def bitlen_alt_def)
  have bd1: "1 \<le> bd" using d by (simp add: bd_def bitlen_alt_def)
  have nl: "pow2 (bn - 1) \<le> of_int n"
    using bitlen_bounds [OF n] bn1 unfolding bn_def [symmetric]
    by (simp add: pow2_int)
  have nu: "of_int n < pow2 bn"
    using bitlen_bounds [OF n] bn1 unfolding bn_def [symmetric]
    by (simp add: pow2_int)
  have dl: "pow2 (bd - 1) \<le> of_int d"
    using bitlen_bounds [OF d] bd1 unfolding bd_def [symmetric]
    by (simp add: pow2_int)
  have du: "of_int d < pow2 bd"
    using bitlen_bounds [OF d] bd1 unfolding bd_def [symmetric]
    by (simp add: pow2_int)
  have dpos: "(0::rat) < of_int d" using d by simp
  have lower: "pow2 (bn - bd - 1) \<le> a"
  proof -
    have "pow2 (bn - bd - 1) * of_int d \<le> pow2 (bn - bd - 1) * pow2 bd"
      using du pow2_pos [of "bn - bd - 1"] by (simp add: less_imp_le)
    also have "\<dots> = pow2 (bn - 1)" by (simp add: pow2_add [symmetric])
    also have "\<dots> \<le> of_int n" by (rule nl)
    finally show ?thesis using dpos by (simp add: a pos_le_divide_eq)
  qed
  have upper: "a < pow2 (bn - bd + 1)"
  proof -
    have "of_int n < pow2 bn" by (rule nu)
    also have "\<dots> = pow2 (bn - bd + 1) * pow2 (bd - 1)" by (simp add: pow2_add [symmetric])
    also have "\<dots> \<le> pow2 (bn - bd + 1) * of_int d"
      using dl pow2_pos [of "bn - bd + 1"] by simp
    finally show ?thesis using dpos by (simp add: a pos_divide_less_eq)
  qed
  show ?thesis
    using lower upper
    by (simp add: ilog2_def q bn_def [symmetric] bd_def [symmetric] Let_def not_le)
qed

lemma ilog2_unique:
  assumes "0 < a" "pow2 k \<le> a" "a < pow2 (k + 1)"
  shows "ilog2 a = k"
proof (rule ccontr)
  assume ne: "ilog2 a \<noteq> k"
  note b = ilog2_bounds [OF assms(1)]
  show False
  proof (cases "ilog2 a < k")
    case True
    then have "pow2 (ilog2 a + 1) \<le> pow2 k" by (intro pow2_mono) simp
    with b assms(2) show False by simp
  next
    case False
    with ne have "k + 1 \<le> ilog2 a" by simp
    then have "pow2 (k + 1) \<le> pow2 (ilog2 a)" by (rule pow2_mono)
    with b assms(3) show False by simp
  qed
qed

lemma round_double_exact:
  assumes "0 < a" "pow2 k \<le> a" "a < pow2 (k + 1)" "k < 1024"
      and "a = of_int z * pow2 (max (k - 52) (- 1074))"
  shows "round_double a = Finite a" and "round_double (- a) = Finite (- a)"
proof -
  define p where "p = max (k - 52) (- 1074)"
  have l: "ilog2 a = k" by (rule ilog2_unique [OF assms(1-3)])
  have pp: "pow2 p \<noteq> 0" using pow2_pos [of p] by simp
  have q: "a / pow2 p = of_int z" using pp by (simp add: assms(5) p_def)
  have r: "of_int (round_half_even (a / pow2 p)) * pow2 p = a"
    by (simp only: q round_half_even_of_int) (simp add: assms(5) p_def)
  have "a < pow2 1024" using assms(3) pow2_mono [of "k + 1" 1024] assms(4) by simp
  then have big: "\<not> pow2 1024 \<le> a" by simp
  show "round_double a = Finite a"
    using assms(1) big by (simp add: round_double_def l p_def [symmetric] r Let_def)
  show "round_double (- a) = Finite (- a)"
    using assms(1) big by (simp add: round_double_def l p_def [symmetric] r Let_def)
qed

lemma round_half_even_ge_1: "1 \<le> x \<Longrightarrow> 1 \<le> round_half_even x"
proof -
  assume "1 \<le> x"
  then have "1 \<le> \<lfloor>x\<rfloor>" by simp
  then show ?thesis by (simp add: round_half_even_def Let_def)
qed

lemma round_double_positive:
  assumes "pow2 (- 1074) \<le> a"
  shows "round_double a \<noteq> NaN \<and> \<not> number_le (round_double a) (Finite 0)"
proof -
  have a: "0 < a" using assms pow2_pos [of "- 1074"] by simp
  define p where "p = max (ilog2 a - 52) (- 1074)"
  have "pow2 p \<le> a"
  proof (cases "ilog2 a - 52 \<le> - 1074")
    case True
    then show ?thesis using assms by (simp add: p_def max_def)
  next
    case False
    then have "p = ilog2 a - 52" by (simp add: p_def)
    then have "pow2 p \<le> pow2 (ilog2 a)" by (simp add: pow2_mono)
    then show ?thesis using ilog2_bounds [OF a] by simp
  qed
  then have "1 \<le> a / pow2 p" using pow2_pos [of p] by (simp add: pos_le_divide_eq)
  then have "1 \<le> round_half_even (a / pow2 p)" by (rule round_half_even_ge_1)
  then have "(1::rat) \<le> of_int (round_half_even (a / pow2 p))" by simp
  then have "0 < of_int (round_half_even (a / pow2 p)) * pow2 p"
    using pow2_pos [of p] by (simp add: zero_less_mult_iff)
  then show ?thesis
    using a by (simp add: round_double_def p_def [symmetric] Let_def)
qed


subsection \<open>The three field parsers and the field errors\<close>

lemma CreateInvoice_shape:
  "CreateInvoice =
     [(''customerId'', ZodString (Some ''PLEASE SELECT A CUSTOMER.'')),
      (''amount'',
         ZodNumber True [MinCheck (Finite 0) False ''PLEASE ENTER AN AMOUNT GREATER THAN $0.''] None),
      (''status'', ZodEnum [''pending'', ''paid''] (Some ''PLEASE SELECT AN INVOICE STATUS.''))]"
  by (simp add: CreateInvoice_def FormSchema_def omit_def)

lemma customerId_parse:
  "ZodString_parse (Some m) p c =
     (case c of JString s \<Rightarrow> (OK c, [])
      | JUndefined \<Rightarrow> (INVALID, [\<lparr>code = invalid_type, path = p, message = ''Required''\<rparr>])
      | _ \<Rightarrow> (INVALID, [\<lparr>code = invalid_type, path = p, message = m\<rparr>]))"
  by (cases c) (simp_all add: ZodString_parse_def getParsedType_def schemaErrorMap_def
      default_invalid_type_def)

lemma amount_parse:
  "ZodNumber_parse True [MinCheck (Finite 0) False m] None p a =
     (if ToNumber a = NaN
      then (INVALID, [\<lparr>code = invalid_type, path = p, message = ''Expected number, received nan''\<rparr>])
      else if number_le (ToNumber a) (Finite 0)
      then (DIRTY (JNumber (ToNumber a)), [\<lparr>code = too_small, path = p, message = m\<rparr>])
      else (OK (JNumber (ToNumber a)), []))"
  by (simp add: ZodNumber_parse_def getParsedType_def schemaErrorMap_def
      default_invalid_type_def)

lemma status_parse:
  "ZodEnum_parse [''pending'', ''paid''] (Some m) p s =
     (case s of
        JString t \<Rightarrow>
          (if t = ''pending'' \<or> t = ''paid'' then (OK s, [])
           else (INVALID, [\<lparr>code = invalid_enum_value, path = p,
                   message = ''Invalid enum value. Expected '' @ [CHR 0x27] @ ''pending'' @ [CHR 0x27] @ '' | '' @ [CHR 0x27] @ ''paid'' @ [CHR 0x27] @ '', received '' @ [CHR 0x27] @ t @ [CHR 0x27]\<rparr>]))
      | JUndefined \<Rightarrow> (INVALID, [\<lparr>code = invalid_type, path = p, message = ''Required''\<rparr>])
      | _ \<Rightarrow> (INVALID, [\<lparr>code = invalid_type, path = p, message = m\<rparr>]))"
  by (cases s) (simp_all add: ZodEnum_parse_def getParsedType_def schemaErrorMap_def
      default_invalid_type_def default_invalid_enum_value_def joinValues_def)

lemma fieldErrors_snoc:
  "fieldErrors (xs @ [x]) =
     (case path x of [] \<Rightarrow> fieldErrors xs
      | k # ks \<Rightarrow> (fieldErrors xs)(k \<mapsto> (case fieldErrors xs k of None \<Rightarrow> [] | Some ms \<Rightarrow> ms) @ [ZodIssue.message x]))"
  unfolding fieldErrors_def by simp

lemma fieldErrors_at:
  "fieldErrors xs k =
     (let ms = map ZodIssue.message (filter (\<lambda>i. case path i of [] \<Rightarrow> False | h # t \<Rightarrow> h = k) xs)
      in if ms = [] then None else Some ms)"
proof (induction xs rule: rev_induct)
  case Nil
  show ?case by (simp add: fieldErrors_def)
next
  case (snoc x xs)
  show ?case
    by (cases "path x") (auto simp: fieldErrors_snoc snoc.IH Let_def)
qed

lemma UpdateInvoice_shape: "UpdateInvoice = CreateInvoice"
  by (simp add: UpdateInvoice_def CreateInvoice_def)

lemma safeParse_invoice:
  "safeParse CreateInvoice [(''customerId'', c), (''amount'', a), (''status'', s)] =
     (if (\<exists>t. c = JString t) \<and> ToNumber a \<noteq> NaN \<and> \<not> number_le (ToNumber a) (Finite 0)
          \<and> (s = JString ''pending'' \<or> s = JString ''paid'')
      then Success [(''customerId'', c), (''amount'', JNumber (ToNumber a)), (''status'', s)]
      else Failure
             (snd (ZodString_parse (Some ''PLEASE SELECT A CUSTOMER.'') [''customerId''] c)
              @ snd (ZodNumber_parse True
                       [MinCheck (Finite 0) False ''PLEASE ENTER AN AMOUNT GREATER THAN $0.'']
                       None [''amount''] a)
              @ snd (ZodEnum_parse [''pending'', ''paid'']
                       (Some ''PLEASE SELECT AN INVOICE STATUS.'') [''status''] s)))"
  unfolding safeParse_def ZodObject_parse_def CreateInvoice_shape
  by (cases c; cases s)
     (simp_all add: get_prop_def customerId_parse amount_parse status_parse)

lemma invoice_errors_customerId:
  "fieldErrors
     (snd (ZodString_parse (Some mc) [''customerId''] c)
      @ snd (ZodNumber_parse True [MinCheck (Finite 0) False ma] None [''amount''] a)
      @ snd (ZodEnum_parse [''pending'', ''paid''] (Some ms) [''status''] s)) ''customerId'' =
   (case c of JString t \<Rightarrow> None | JUndefined \<Rightarrow> Some [''Required''] | _ \<Rightarrow> Some [mc])"
  by (cases c; cases s)
     (simp_all add: fieldErrors_at customerId_parse amount_parse status_parse)

lemma invoice_errors_amount:
  "fieldErrors
     (snd (ZodString_parse (Some mc) [''customerId''] c)
      @ snd (ZodNumber_parse True [MinCheck (Finite 0) False ma] None [''amount''] a)
      @ snd (ZodEnum_parse [''pending'', ''paid''] (Some ms) [''status''] s)) ''amount'' =
   (if ToNumber a = NaN then Some [''Expected number, received nan'']
    else if number_le (ToNumber a) (Finite 0) then Some [ma] else None)"
  by (cases c; cases s)
     (simp_all add: fieldErrors_at customerId_parse amount_parse status_parse)

lemma invoice_errors_status:
  "fieldErrors
     (snd (ZodString_parse (Some mc) [''customerId''] c)
      @ snd (ZodNumber_parse True [MinCheck (Finite 0) False ma] None [''amount''] a)
      @ snd (ZodEnum_parse [''pending'', ''paid''] (Some ms) [''status''] s)) ''status'' =
   (case s of
      JString t \<Rightarrow> (if t = ''pending'' \<or> t = ''paid'' then None
                     else Some [default_invalid_enum_value [''pending'', ''paid''] t])
    | JUndefined \<Rightarrow> Some [''Required'']
    | _ \<Rightarrow> Some [ms])"
  by (cases c; cases s)
     (simp_all add: fieldErrors_at customerId_parse amount_parse status_parse
        default_invalid_enum_value_def joinValues_def)

section \<open>What a handler does, by cases on the validation\<close>

lemma foldr_split_step:
  "c \<notin> set d \<Longrightarrow>
   foldr (\<lambda>x acc. if x = c then [] # acc
                   else (case acc of [] \<Rightarrow> [[x]] | w # ws \<Rightarrow> (x # w) # ws)) d (w # ws)
     = (d @ w) # ws"
  by (induction d) auto

lemma split_on_first:
  "c \<notin> set d \<Longrightarrow> split_on c (d @ c # t) = d # split_on c t"
  by (simp add: split_on_def foldr_split_step)

lemma array_at_0: "array_at (x # xs) 0 = JString x"
  by (simp add: array_at_def)

lemma createInvoice_accepts:
  assumes "FormData_get formData ''customerId'' = JString t"
      and "ToNumber (FormData_get formData ''amount'') = n"
      and "n \<noteq> NaN" and "\<not> number_le n (Finite 0)"
      and "FormData_get formData ''status'' = JString u" and "u = ''pending'' \<or> u = ''paid''"
      and "st = INSERT (JString t) (JNumber (number_times n (Finite 100))) (JString u)
                  (array_at (split_on CHR ''T'' (Date_toISOString e)) 0)"
  shows "createInvoice e prevState formData rows =
           (case store_raises e st rows of
              Some err \<Rightarrow>
                (Returned \<lparr>errors = None,
                           message = Some ''DATABASE ERROR: FAILED TO CREATE INVOICE.''\<rparr>,
                 [Sql st], rows)
            | None \<Rightarrow>
                (Redirected ''/dashboard/invoices'',
                 [Sql st, RevalidatePath ''/dashboard/invoices''], run_statement e st rows))"
  using assms
  by (auto simp: createInvoice_def safeParse_invoice get_prop_def js_times_def sql_def Let_def
           split: option.splits)

lemma createInvoice_rejects:
  assumes "\<not> ((\<exists>t. FormData_get formData ''customerId'' = JString t)
             \<and> ToNumber (FormData_get formData ''amount'') \<noteq> NaN
             \<and> \<not> number_le (ToNumber (FormData_get formData ''amount'')) (Finite 0)
             \<and> (FormData_get formData ''status'' = JString ''pending''
                \<or> FormData_get formData ''status'' = JString ''paid''))"
  shows "createInvoice e prevState formData rows =
           (Returned
              \<lparr>errors = Some (fieldErrors
                 (snd (ZodString_parse (Some ''PLEASE SELECT A CUSTOMER.'') [''customerId'']
                         (FormData_get formData ''customerId''))
                  @ snd (ZodNumber_parse True
                           [MinCheck (Finite 0) False ''PLEASE ENTER AN AMOUNT GREATER THAN $0.'']
                           None [''amount''] (FormData_get formData ''amount''))
                  @ snd (ZodEnum_parse [''pending'', ''paid'']
                           (Some ''PLEASE SELECT AN INVOICE STATUS.'') [''status'']
                           (FormData_get formData ''status'')))),
               message = Some ''MISSING FIELDS. FAILED TO CREATE INVOICE.''\<rparr>, [], rows)"
  unfolding createInvoice_def safeParse_invoice
  by (simp only: if_not_P [OF assms] SafeParseReturnType.case)

lemma updateInvoice_accepts:
  assumes "FormData_get formData ''customerId'' = JString t"
      and "ToNumber (FormData_get formData ''amount'') = n"
      and "n \<noteq> NaN" and "\<not> number_le n (Finite 0)"
      and "FormData_get formData ''status'' = JString u" and "u = ''pending'' \<or> u = ''paid''"
      and "st = UPDATE (JString t) (JNumber (number_times n (Finite 100))) (JString u) i"
  shows "updateInvoice e i prevState formData rows =
           (case store_raises e st rows of
              Some err \<Rightarrow>
                (Returned \<lparr>errors = None,
                           message = Some ''DATABASE ERROR: FAILED TO UPDATE INVOICE.''\<rparr>,
                 [Sql st], rows)
            | None \<Rightarrow>
                (Redirected ''/dashboard/invoices'',
                 [Sql st, RevalidatePath ''/dashboard/invoices''], run_statement e st rows))"
  using assms
  by (auto simp: updateInvoice_def UpdateInvoice_shape safeParse_invoice get_prop_def js_times_def
                 sql_def Let_def
           split: option.splits)

lemma updateInvoice_rejects:
  assumes "\<not> ((\<exists>t. FormData_get formData ''customerId'' = JString t)
             \<and> ToNumber (FormData_get formData ''amount'') \<noteq> NaN
             \<and> \<not> number_le (ToNumber (FormData_get formData ''amount'')) (Finite 0)
             \<and> (FormData_get formData ''status'' = JString ''pending''
                \<or> FormData_get formData ''status'' = JString ''paid''))"
  shows "updateInvoice e i prevState formData rows =
           (Returned
              \<lparr>errors = Some (fieldErrors
                 (snd (ZodString_parse (Some ''PLEASE SELECT A CUSTOMER.'') [''customerId'']
                         (FormData_get formData ''customerId''))
                  @ snd (ZodNumber_parse True
                           [MinCheck (Finite 0) False ''PLEASE ENTER AN AMOUNT GREATER THAN $0.'']
                           None [''amount''] (FormData_get formData ''amount''))
                  @ snd (ZodEnum_parse [''pending'', ''paid'']
                           (Some ''PLEASE SELECT AN INVOICE STATUS.'') [''status'']
                           (FormData_get formData ''status'')))),
               message = Some ''MISSING FIELDS. FAILED TO UPDATE INVOICE.''\<rparr>, [], rows)"
  unfolding updateInvoice_def UpdateInvoice_shape safeParse_invoice
  by (simp only: if_not_P [OF assms] SafeParseReturnType.case)

lemma FormData_get_cases:
  "FormData_get formData name =
     (case map_of formData name of None \<Rightarrow> JNull | Some (EntryString t) \<Rightarrow> JString t
      | Some EntryFile \<Rightarrow> JFile)"
  by (simp add: FormData_get_def)

lemma FormData_get_string:
  "(FormData_get formData name = JString t) = (map_of formData name = Some (EntryString t))"
  by (simp add: FormData_get_def split: option.splits FormDataEntryValue.splits)

lemma FormData_get_not_undefined: "FormData_get formData name \<noteq> JUndefined"
  by (simp add: FormData_get_def split: option.splits FormDataEntryValue.splits)

lemma createInvoice_cases:
  "createInvoice e prevState formData rows =
     (let c = FormData_get formData ''customerId'';
          n = ToNumber (FormData_get formData ''amount'');
          s = FormData_get formData ''status'';
          st = INSERT c (JNumber (number_times n (Finite 100))) s
                 (array_at (split_on CHR ''T'' (Date_toISOString e)) 0)
      in if (\<exists>t. c = JString t) \<and> n \<noteq> NaN \<and> \<not> number_le n (Finite 0)
            \<and> (s = JString ''pending'' \<or> s = JString ''paid'')
         then (case store_raises e st rows of
                 Some err \<Rightarrow>
                   (Returned \<lparr>errors = None,
                              message = Some ''DATABASE ERROR: FAILED TO CREATE INVOICE.''\<rparr>,
                    [Sql st], rows)
               | None \<Rightarrow>
                   (Redirected ''/dashboard/invoices'',
                    [Sql st, RevalidatePath ''/dashboard/invoices''], run_statement e st rows))
         else (Returned
                 \<lparr>errors = Some (fieldErrors
                    (snd (ZodString_parse (Some ''PLEASE SELECT A CUSTOMER.'') [''customerId''] c)
                     @ snd (ZodNumber_parse True
                              [MinCheck (Finite 0) False ''PLEASE ENTER AN AMOUNT GREATER THAN $0.'']
                              None [''amount''] (FormData_get formData ''amount''))
                     @ snd (ZodEnum_parse [''pending'', ''paid'']
                              (Some ''PLEASE SELECT AN INVOICE STATUS.'') [''status''] s))),
                  message = Some ''MISSING FIELDS. FAILED TO CREATE INVOICE.''\<rparr>, [], rows))"
proof (cases "(\<exists>t. FormData_get formData ''customerId'' = JString t)
             \<and> ToNumber (FormData_get formData ''amount'') \<noteq> NaN
             \<and> \<not> number_le (ToNumber (FormData_get formData ''amount'')) (Finite 0)
             \<and> (FormData_get formData ''status'' = JString ''pending''
                \<or> FormData_get formData ''status'' = JString ''paid'')")
  case True
  then obtain t u where h: "FormData_get formData ''customerId'' = JString t"
      "FormData_get formData ''status'' = JString u" "u = ''pending'' \<or> u = ''paid''"
    by auto
  from True have n: "ToNumber (FormData_get formData ''amount'') \<noteq> NaN"
      "\<not> number_le (ToNumber (FormData_get formData ''amount'')) (Finite 0)" by simp_all
  show ?thesis
    using True
    by (simp add: createInvoice_accepts [OF h(1) refl n h(2) h(3) refl] h Let_def)
next
  case False
  show ?thesis
    using False by (simp only: createInvoice_rejects [OF False] Let_def if_False)
qed

lemma updateInvoice_cases:
  "updateInvoice e i prevState formData rows =
     (let c = FormData_get formData ''customerId'';
          n = ToNumber (FormData_get formData ''amount'');
          s = FormData_get formData ''status'';
          st = UPDATE c (JNumber (number_times n (Finite 100))) s i
      in if (\<exists>t. c = JString t) \<and> n \<noteq> NaN \<and> \<not> number_le n (Finite 0)
            \<and> (s = JString ''pending'' \<or> s = JString ''paid'')
         then (case store_raises e st rows of
                 Some err \<Rightarrow>
                   (Returned \<lparr>errors = None,
                              message = Some ''DATABASE ERROR: FAILED TO UPDATE INVOICE.''\<rparr>,
                    [Sql st], rows)
               | None \<Rightarrow>
                   (Redirected ''/dashboard/invoices'',
                    [Sql st, RevalidatePath ''/dashboard/invoices''], run_statement e st rows))
         else (Returned
                 \<lparr>errors = Some (fieldErrors
                    (snd (ZodString_parse (Some ''PLEASE SELECT A CUSTOMER.'') [''customerId''] c)
                     @ snd (ZodNumber_parse True
                              [MinCheck (Finite 0) False ''PLEASE ENTER AN AMOUNT GREATER THAN $0.'']
                              None [''amount''] (FormData_get formData ''amount''))
                     @ snd (ZodEnum_parse [''pending'', ''paid'']
                              (Some ''PLEASE SELECT AN INVOICE STATUS.'') [''status''] s))),
                  message = Some ''MISSING FIELDS. FAILED TO UPDATE INVOICE.''\<rparr>, [], rows))"
proof (cases "(\<exists>t. FormData_get formData ''customerId'' = JString t)
             \<and> ToNumber (FormData_get formData ''amount'') \<noteq> NaN
             \<and> \<not> number_le (ToNumber (FormData_get formData ''amount'')) (Finite 0)
             \<and> (FormData_get formData ''status'' = JString ''pending''
                \<or> FormData_get formData ''status'' = JString ''paid'')")
  case True
  then obtain t u where h: "FormData_get formData ''customerId'' = JString t"
      "FormData_get formData ''status'' = JString u" "u = ''pending'' \<or> u = ''paid''"
    by auto
  from True have n: "ToNumber (FormData_get formData ''amount'') \<noteq> NaN"
      "\<not> number_le (ToNumber (FormData_get formData ''amount'')) (Finite 0)" by simp_all
  show ?thesis
    using True
    by (simp add: updateInvoice_accepts [OF h(1) refl n h(2) h(3) refl] h Let_def)
next
  case False
  show ?thesis
    using False by (simp only: updateInvoice_rejects [OF False] Let_def if_False)
qed

lemma create_errors_customerId:
  "errors_for (fst (createInvoice e prevState formData rows)) ''customerId'' =
     (case FormData_get formData ''customerId'' of
        JString t \<Rightarrow> None | JUndefined \<Rightarrow> Some [''Required'']
      | _ \<Rightarrow> Some [''PLEASE SELECT A CUSTOMER.''])"
  by (auto simp: createInvoice_cases errors_for_def Let_def invoice_errors_customerId
           split: option.splits)

lemma update_errors_customerId:
  "errors_for (fst (updateInvoice e i prevState formData rows)) ''customerId'' =
     (case FormData_get formData ''customerId'' of
        JString t \<Rightarrow> None | JUndefined \<Rightarrow> Some [''Required'']
      | _ \<Rightarrow> Some [''PLEASE SELECT A CUSTOMER.''])"
  by (auto simp: updateInvoice_cases errors_for_def Let_def invoice_errors_customerId
           split: option.splits)

lemma create_errors_amount:
  "errors_for (fst (createInvoice e prevState formData rows)) ''amount'' =
     (if ToNumber (FormData_get formData ''amount'') = NaN
      then Some [''Expected number, received nan'']
      else if number_le (ToNumber (FormData_get formData ''amount'')) (Finite 0)
      then Some [''PLEASE ENTER AN AMOUNT GREATER THAN $0.''] else None)"
  by (auto simp: createInvoice_cases errors_for_def Let_def invoice_errors_amount
           split: option.splits)

lemma update_errors_amount:
  "errors_for (fst (updateInvoice e i prevState formData rows)) ''amount'' =
     (if ToNumber (FormData_get formData ''amount'') = NaN
      then Some [''Expected number, received nan'']
      else if number_le (ToNumber (FormData_get formData ''amount'')) (Finite 0)
      then Some [''PLEASE ENTER AN AMOUNT GREATER THAN $0.''] else None)"
  by (auto simp: updateInvoice_cases errors_for_def Let_def invoice_errors_amount
           split: option.splits)

lemma create_errors_status:
  "errors_for (fst (createInvoice e prevState formData rows)) ''status'' =
     (case FormData_get formData ''status'' of
        JString t \<Rightarrow> (if t = ''pending'' \<or> t = ''paid'' then None
                       else Some [default_invalid_enum_value [''pending'', ''paid''] t])
      | JUndefined \<Rightarrow> Some [''Required'']
      | _ \<Rightarrow> Some [''PLEASE SELECT AN INVOICE STATUS.''])"
  by (auto simp: createInvoice_cases errors_for_def Let_def invoice_errors_status
           split: option.splits)

lemma update_errors_status:
  "errors_for (fst (updateInvoice e i prevState formData rows)) ''status'' =
     (case FormData_get formData ''status'' of
        JString t \<Rightarrow> (if t = ''pending'' \<or> t = ''paid'' then None
                       else Some [default_invalid_enum_value [''pending'', ''paid''] t])
      | JUndefined \<Rightarrow> Some [''Required'']
      | _ \<Rightarrow> Some [''PLEASE SELECT AN INVOICE STATUS.''])"
  by (auto simp: updateInvoice_cases errors_for_def Let_def invoice_errors_status
           split: option.splits)

lemma create_rejected_untouched:
  assumes "\<not> ((\<exists>t. FormData_get formData ''customerId'' = JString t)
             \<and> ToNumber (FormData_get formData ''amount'') \<noteq> NaN
             \<and> \<not> number_le (ToNumber (FormData_get formData ''amount'')) (Finite 0)
             \<and> (FormData_get formData ''status'' = JString ''pending''
                \<or> FormData_get formData ''status'' = JString ''paid''))"
  shows "effects_of (createInvoice e prevState formData rows) = []
       \<and> rows_of (createInvoice e prevState formData rows) = rows"
  by (simp add: createInvoice_rejects [OF assms])

lemma update_rejected_untouched:
  assumes "\<not> ((\<exists>t. FormData_get formData ''customerId'' = JString t)
             \<and> ToNumber (FormData_get formData ''amount'') \<noteq> NaN
             \<and> \<not> number_le (ToNumber (FormData_get formData ''amount'')) (Finite 0)
             \<and> (FormData_get formData ''status'' = JString ''pending''
                \<or> FormData_get formData ''status'' = JString ''paid''))"
  shows "effects_of (updateInvoice e i prevState formData rows) = []
       \<and> rows_of (updateInvoice e i prevState formData rows) = rows"
  by (simp add: updateInvoice_rejects [OF assms])

subsection \<open>Numbers read from concrete text\<close>

lemmas StringToNumber_defs =
  StringToNumber_def trim_def StrWhiteSpaceChar_def StrDecimalLiteral_def
  StrUnsignedDecimalLiteral_def NonDecimalIntegerLiteral_def is_digit_def digit_of_def
  ExponentPart_def SignedInteger_def digits_value_def pow10_def

lemma StringToNumber_250: "StringToNumber ''250'' = Finite 250"
  using round_double_of_int [of 250] by (simp add: StringToNumber_defs)

lemma StringToNumber_10: "StringToNumber ''10'' = Finite 10"
  using round_double_of_int [of 10] by (simp add: StringToNumber_defs)

lemma StringToNumber_0: "StringToNumber ''0'' = Finite 0"
  by (simp add: StringToNumber_defs round_double_def)

lemma round_double_minus_5: "round_double (- 5) = Finite (- 5)"
  by (rule round_double_exact(2) [of 5 2 "5 * 2 ^ 50"]) (simp_all add: pow2_def)

lemma StringToNumber_minus_5: "StringToNumber ''-5'' = Finite (- 5)"
  by (simp add: StringToNumber_defs round_double_minus_5)

lemma round_double_cent:
  "round_double (1 / 100) \<noteq> NaN \<and> \<not> number_le (round_double (1 / 100)) (Finite 0)"
  by (rule round_double_positive) (simp add: pow2_def)

lemma StringToNumber_cent:
  "StringToNumber ''0.01'' \<noteq> NaN \<and> \<not> number_le (StringToNumber ''0.01'') (Finite 0)"
  using round_double_cent by (simp add: StringToNumber_defs)

lemma round_double_eighth: "round_double (1 / 8) = Finite (1 / 8)"
  by (rule round_double_exact(1) [of "1 / 8" "- 3" "2 ^ 52"]) (simp_all add: pow2_def)

lemma StringToNumber_eighth: "StringToNumber ''0.125'' = Finite (1 / 8)"
  by (simp add: StringToNumber_defs round_double_eighth)

lemma StringToNumber_abc: "StringToNumber ''abc'' = NaN"
  by (simp add: StringToNumber_defs)

lemma round_double_25000: "round_double 25000 = Finite 25000"
  using round_double_of_int [of 25000] by simp

lemma times_100_of_250: "number_times (Finite 250) (Finite 100) = Finite 25000"
  by (simp add: round_double_25000)

lemma round_double_1000: "round_double 1000 = Finite 1000"
  using round_double_of_int [of 1000] by simp

lemma times_100_of_10: "number_times (Finite 10) (Finite 100) = Finite 1000"
  by (simp add: round_double_1000)

lemma round_double_12_5: "round_double (25 / 2) = Finite (25 / 2)"
  by (rule round_double_exact(1) [of "25 / 2" 3 "25 * 2 ^ 48"]) (simp_all add: pow2_def)

lemma times_100_of_eighth: "number_times (Finite (1 / 8)) (Finite 100) = Finite (25 / 2)"
  by (simp add: round_double_12_5)

lemma number_le_not_NaN: "number_le n m \<Longrightarrow> n \<noteq> NaN"
  by (cases n) simp_all

lemma clock_date:
  "array_at (split_on CHR ''T'' ''2024-03-05T10:11:12.123Z'') 0 = JString ''2024-03-05''"
  using split_on_first [of "CHR ''T''" "''2024-03-05''" "''10:11:12.123Z''"]
  by (simp add: array_at_0)

section \<open>The claims\<close>



text \<open>
  Claim C1. A form with customerId \<^verbatim>\<open>3958dc9e-712f-4377-85e9-fec4b6a6442a\<close>, amount \<^verbatim>\<open>250\<close> and
  status \<^verbatim>\<open>paid\<close> passes the validation of the create handler; the one INSERT it sends
  carries the amount 25000, the status \<^verbatim>\<open>paid\<close> and, as date, the part of the clock's ISO
  timestamp before the \<^verbatim>\<open>T\<close>; when the store accepts the statement the handler
  invalidates \<^verbatim>\<open>/dashboard/invoices\<close> and redirects there, returning no state.
\<close>

theorem createInvoice_round_trip:
  assumes cid: "FormData_get formData ''customerId'' = JString ''3958dc9e-712f-4377-85e9-fec4b6a6442a''"
      and amt: "FormData_get formData ''amount'' = JString ''250''"
      and sts: "FormData_get formData ''status'' = JString ''paid''"
      and clock: "Date_toISOString e = today @ CHR ''T'' # time" "CHR ''T'' \<notin> set today"
      and st: "st = INSERT (JString ''3958dc9e-712f-4377-85e9-fec4b6a6442a'')
                       (JNumber (Finite 25000)) (JString ''paid'') (JString today)"
  shows "safeParse CreateInvoice
           [(''customerId'', FormData_get formData ''customerId''),
            (''amount'', FormData_get formData ''amount''),
            (''status'', FormData_get formData ''status'')]
         = Success [(''customerId'', JString ''3958dc9e-712f-4377-85e9-fec4b6a6442a''),
                    (''amount'', JNumber (Finite 250)), (''status'', JString ''paid'')]
       \<and> (store_raises e st rows = None \<longrightarrow>
            createInvoice e prevState formData rows =
              (Redirected ''/dashboard/invoices'',
               [Sql st, RevalidatePath ''/dashboard/invoices''],
               rows @ [\<lparr>invoice_id = store_new_id e rows,
                         customer_id = JString ''3958dc9e-712f-4377-85e9-fec4b6a6442a'',
                         amount = JNumber (Finite 25000), status = JString ''paid'',
                         date = JString today\<rparr>]))
       \<and> (\<forall>err. store_raises e st rows = Some err \<longrightarrow>
            effects_of (createInvoice e prevState formData rows) = [Sql st])"
proof -
  have n: "ToNumber (FormData_get formData ''amount'') = Finite 250"
    by (simp add: amt StringToNumber_250)
  have d: "array_at (split_on CHR ''T'' (Date_toISOString e)) 0 = JString today"
    by (simp add: clock split_on_first array_at_0)
  have st': "st = INSERT (JString ''3958dc9e-712f-4377-85e9-fec4b6a6442a'')
                    (JNumber (number_times (Finite 250) (Finite 100))) (JString ''paid'')
                    (array_at (split_on CHR ''T'' (Date_toISOString e)) 0)"
    by (simp only: st d times_100_of_250)
  have run: "createInvoice e prevState formData rows =
           (case store_raises e st rows of
              Some err \<Rightarrow>
                (Returned \<lparr>errors = None,
                           message = Some ''DATABASE ERROR: FAILED TO CREATE INVOICE.''\<rparr>,
                 [Sql st], rows)
            | None \<Rightarrow>
                (Redirected ''/dashboard/invoices'',
                 [Sql st, RevalidatePath ''/dashboard/invoices''], run_statement e st rows))"
    by (rule createInvoice_accepts [OF cid n _ _ sts _ st']) simp_all
  have parse: "safeParse CreateInvoice
           [(''customerId'', FormData_get formData ''customerId''),
            (''amount'', FormData_get formData ''amount''),
            (''status'', FormData_get formData ''status'')]
         = Success [(''customerId'', JString ''3958dc9e-712f-4377-85e9-fec4b6a6442a''),
                    (''amount'', JNumber (Finite 250)), (''status'', JString ''paid'')]"
    by (simp add: safeParse_invoice cid amt sts StringToNumber_250)
  show ?thesis
    using parse by (simp add: run) (simp add: st)
qed


text \<open>The round trip at a concrete clock, with a store that accepts.\<close>

theorem createInvoice_round_trip_witness:
  "createInvoice (example_env None None) initialState
     (example_form ''3958dc9e-712f-4377-85e9-fec4b6a6442a'' ''250'' ''paid'') [] =
     (Redirected ''/dashboard/invoices'',
      [Sql (INSERT (JString ''3958dc9e-712f-4377-85e9-fec4b6a6442a'') (JNumber (Finite 25000))
              (JString ''paid'') (JString ''2024-03-05'')),
       RevalidatePath ''/dashboard/invoices''],
      [\<lparr>invoice_id = ''new-id'',
        customer_id = JString ''3958dc9e-712f-4377-85e9-fec4b6a6442a'',
        amount = JNumber (Finite 25000), status = JString ''paid'',
        date = JString ''2024-03-05''\<rparr>])"
  using createInvoice_round_trip
    [of "example_form ''3958dc9e-712f-4377-85e9-fec4b6a6442a'' ''250'' ''paid''"
        "example_env None None" "''2024-03-05''" "''10:11:12.123Z''" _ "[]" initialState]
  by (simp add: example_env_def example_form_def FormData_get_def)

text \<open>
  Claim C2, as the code has it. When the amount of the form does not coerce to a number,
  validation in the create and in the update handler fails with a field-level error for
  \<^verbatim>\<open>amount\<close> whose message is the library's default for a wrong type,
  \<^verbatim>\<open>Expected number, received nan\<close>; when it coerces to a number that is at most 0 the
  message is \<^verbatim>\<open>PLEASE ENTER AN AMOUNT GREATER THAN $0.\<close>; in both cases no statement is sent
  and the rows are untouched. The texts \<^verbatim>\<open>0\<close> and \<^verbatim>\<open>-5\<close> coerce to numbers that are at
  most 0, and for the text \<^verbatim>\<open>0.01\<close> the field \<^verbatim>\<open>amount\<close> has no error.
\<close>

theorem amount_validation:
  "(ToNumber (FormData_get formData ''amount'') = NaN \<longrightarrow>
      errors_for (fst (createInvoice e prevState formData rows)) ''amount''
        = Some [''Expected number, received nan'']
      \<and> effects_of (createInvoice e prevState formData rows) = []
      \<and> rows_of (createInvoice e prevState formData rows) = rows
      \<and> errors_for (fst (updateInvoice e i prevState formData rows)) ''amount''
        = Some [''Expected number, received nan'']
      \<and> effects_of (updateInvoice e i prevState formData rows) = []
      \<and> rows_of (updateInvoice e i prevState formData rows) = rows)
   \<and> (number_le (ToNumber (FormData_get formData ''amount'')) (Finite 0) \<longrightarrow>
      errors_for (fst (createInvoice e prevState formData rows)) ''amount''
        = Some [''PLEASE ENTER AN AMOUNT GREATER THAN $0.'']
      \<and> effects_of (createInvoice e prevState formData rows) = []
      \<and> rows_of (createInvoice e prevState formData rows) = rows
      \<and> errors_for (fst (updateInvoice e i prevState formData rows)) ''amount''
        = Some [''PLEASE ENTER AN AMOUNT GREATER THAN $0.'']
      \<and> effects_of (updateInvoice e i prevState formData rows) = []
      \<and> rows_of (updateInvoice e i prevState formData rows) = rows)
   \<and> (FormData_get formData ''amount'' = JString ''0''
        \<or> FormData_get formData ''amount'' = JString ''-5'' \<longrightarrow>
      number_le (ToNumber (FormData_get formData ''amount'')) (Finite 0))
   \<and> (FormData_get formData ''amount'' = JString ''0.01'' \<longrightarrow>
      errors_for (fst (createInvoice e prevState formData rows)) ''amount'' = None
      \<and> errors_for (fst (updateInvoice e i prevState formData rows)) ''amount'' = None)"
proof (intro conjI impI)
  assume h: "ToNumber (FormData_get formData ''amount'') = NaN"
  show "errors_for (fst (createInvoice e prevState formData rows)) ''amount''
        = Some [''Expected number, received nan'']"
    by (simp add: create_errors_amount h)
  show "errors_for (fst (updateInvoice e i prevState formData rows)) ''amount''
        = Some [''Expected number, received nan'']"
    by (simp add: update_errors_amount h)
  show "effects_of (createInvoice e prevState formData rows) = []"
    "rows_of (createInvoice e prevState formData rows) = rows"
    using create_rejected_untouched [of formData e prevState rows] h by simp_all
  show "effects_of (updateInvoice e i prevState formData rows) = []"
    "rows_of (updateInvoice e i prevState formData rows) = rows"
    using update_rejected_untouched [of formData e i prevState rows] h by simp_all
next
  assume h: "number_le (ToNumber (FormData_get formData ''amount'')) (Finite 0)"
  have n: "ToNumber (FormData_get formData ''amount'') \<noteq> NaN"
    by (rule number_le_not_NaN [OF h])
  show "errors_for (fst (createInvoice e prevState formData rows)) ''amount''
        = Some [''PLEASE ENTER AN AMOUNT GREATER THAN $0.'']"
    by (simp add: create_errors_amount h n)
  show "errors_for (fst (updateInvoice e i prevState formData rows)) ''amount''
        = Some [''PLEASE ENTER AN AMOUNT GREATER THAN $0.'']"
    by (simp add: update_errors_amount h n)
  show "effects_of (createInvoice e prevState formData rows) = []"
    "rows_of (createInvoice e prevState formData rows) = rows"
    using create_rejected_untouched [of formData e prevState rows] h by simp_all
  show "effects_of (updateInvoice e i prevState formData rows) = []"
    "rows_of (updateInvoice e i prevState formData rows) = rows"
    using update_rejected_untouched [of formData e i prevState rows] h by simp_all
next
  assume "FormData_get formData ''amount'' = JString ''0''
        \<or> FormData_get formData ''amount'' = JString ''-5''"
  then show "number_le (ToNumber (FormData_get formData ''amount'')) (Finite 0)"
    by (auto simp: StringToNumber_0 StringToNumber_minus_5)
next
  assume h: "FormData_get formData ''amount'' = JString ''0.01''"
  show "errors_for (fst (createInvoice e prevState formData rows)) ''amount'' = None"
    using StringToNumber_cent by (simp add: create_errors_amount h)
  show "errors_for (fst (updateInvoice e i prevState formData rows)) ''amount'' = None"
    using StringToNumber_cent by (simp add: update_errors_amount h)
qed

text \<open>The four amounts \<^verbatim>\<open>abc\<close>, \<^verbatim>\<open>-5\<close>, \<^verbatim>\<open>0\<close> and \<^verbatim>\<open>0.01\<close> in a concrete form.\<close>

theorem amount_validation_witness:
  "errors_for (fst (createInvoice (example_env None None) initialState
                      (example_form ''c1'' ''abc'' ''paid'') [])) ''amount''
     = Some [''Expected number, received nan'']
   \<and> errors_for (fst (updateInvoice (example_env None None) ''X'' initialState
                      (example_form ''c1'' ''-5'' ''paid'') [])) ''amount''
     = Some [''PLEASE ENTER AN AMOUNT GREATER THAN $0.'']
   \<and> effects_of (updateInvoice (example_env None None) ''X'' initialState
                      (example_form ''c1'' ''-5'' ''paid'') []) = []
   \<and> errors_for (fst (createInvoice (example_env None None) initialState
                      (example_form ''c1'' ''0'' ''paid'') [])) ''amount''
     = Some [''PLEASE ENTER AN AMOUNT GREATER THAN $0.'']
   \<and> errors_for (fst (createInvoice (example_env None None) initialState
                      (example_form ''c1'' ''0.01'' ''paid'') [])) ''amount'' = None"
proof -
  have a: "ToNumber (FormData_get (example_form ''c1'' ''abc'' ''paid'') ''amount'') = NaN"
    by (simp add: example_form_def FormData_get_def StringToNumber_abc)
  have b: "FormData_get (example_form ''c1'' ''-5'' ''paid'') ''amount'' = JString ''-5''"
    by (simp add: example_form_def FormData_get_def)
  have c: "FormData_get (example_form ''c1'' ''0'' ''paid'') ''amount'' = JString ''0''"
    by (simp add: example_form_def FormData_get_def)
  have d: "FormData_get (example_form ''c1'' ''0.01'' ''paid'') ''amount'' = JString ''0.01''"
    by (simp add: example_form_def FormData_get_def)
  show ?thesis
    using amount_validation [of "example_form ''c1'' ''abc'' ''paid''" "example_env None None"
            initialState "[]" "''X''"]
          amount_validation [of "example_form ''c1'' ''-5'' ''paid''" "example_env None None"
            initialState "[]" "''X''"]
          amount_validation [of "example_form ''c1'' ''0'' ''paid''" "example_env None None"
            initialState "[]" "''X''"]
          amount_validation [of "example_form ''c1'' ''0.01'' ''paid''" "example_env None None"
            initialState "[]" "''X''"]
    by (simp only: a b c d) simp
qed

text \<open>
  The claim C2 as stated promises the greater-than-zero message also when the amount does
  not coerce to a number. The schema gives \<^verbatim>\<open>z.coerce.number()\<close> no message of its own for
  a wrong type, so the amount \<^verbatim>\<open>abc\<close> is reported with the default message.
\<close>

theorem amount_message_counterexample:
  "ToNumber (FormData_get (example_form ''c1'' ''abc'' ''paid'') ''amount'') = NaN
   \<and> errors_for (fst (createInvoice (example_env None None) initialState
                         (example_form ''c1'' ''abc'' ''paid'') [])) ''amount''
       = Some [''Expected number, received nan'']
   \<and> errors_for (fst (createInvoice (example_env None None) initialState
                         (example_form ''c1'' ''abc'' ''paid'') [])) ''amount''
       \<noteq> Some [''PLEASE ENTER AN AMOUNT GREATER THAN $0.'']"
  by (simp add: create_errors_amount example_form_def FormData_get_def StringToNumber_abc)

text \<open>
  Claim C3, as the code has it. When the form has no text entry for \<^verbatim>\<open>customerId\<close> (the
  entry is missing, so that \<^verbatim>\<open>get\<close> returns \<^verbatim>\<open>null\<close>, or it is a file), the create and the
  update handler return a field-level error for \<^verbatim>\<open>customerId\<close> with the message
  \<^verbatim>\<open>PLEASE SELECT A CUSTOMER.\<close>, send no statement and leave the rows untouched. Every
  text entry, the empty text included, passes the check of \<^verbatim>\<open>customerId\<close>:
  \<^verbatim>\<open>z.string()\<close> has no minimum length.
\<close>

theorem customerId_validation:
  "((\<forall>t. map_of formData ''customerId'' \<noteq> Some (EntryString t)) \<longrightarrow>
      errors_for (fst (createInvoice e prevState formData rows)) ''customerId''
        = Some [''PLEASE SELECT A CUSTOMER.'']
      \<and> effects_of (createInvoice e prevState formData rows) = []
      \<and> rows_of (createInvoice e prevState formData rows) = rows
      \<and> errors_for (fst (updateInvoice e i prevState formData rows)) ''customerId''
        = Some [''PLEASE SELECT A CUSTOMER.'']
      \<and> effects_of (updateInvoice e i prevState formData rows) = []
      \<and> rows_of (updateInvoice e i prevState formData rows) = rows)
   \<and> ((\<exists>t. map_of formData ''customerId'' = Some (EntryString t)) \<longrightarrow>
      errors_for (fst (createInvoice e prevState formData rows)) ''customerId'' = None
      \<and> errors_for (fst (updateInvoice e i prevState formData rows)) ''customerId'' = None)"
proof (intro conjI impI)
  assume h: "\<forall>t. map_of formData ''customerId'' \<noteq> Some (EntryString t)"
  then have g: "\<forall>t. FormData_get formData ''customerId'' \<noteq> JString t"
    by (simp add: FormData_get_string)
  have v: "FormData_get formData ''customerId'' = JNull \<or> FormData_get formData ''customerId'' = JFile"
    using g FormData_get_not_undefined [of formData "''customerId''"]
    by (cases "FormData_get formData ''customerId''") (simp_all add: FormData_get_cases split: option.splits FormDataEntryValue.splits)
  show "errors_for (fst (createInvoice e prevState formData rows)) ''customerId''
        = Some [''PLEASE SELECT A CUSTOMER.'']"
    using v by (auto simp: create_errors_customerId)
  show "errors_for (fst (updateInvoice e i prevState formData rows)) ''customerId''
        = Some [''PLEASE SELECT A CUSTOMER.'']"
    using v by (auto simp: update_errors_customerId)
  show "effects_of (createInvoice e prevState formData rows) = []"
    "rows_of (createInvoice e prevState formData rows) = rows"
    using create_rejected_untouched [of formData e prevState rows] g by simp_all
  show "effects_of (updateInvoice e i prevState formData rows) = []"
    "rows_of (updateInvoice e i prevState formData rows) = rows"
    using update_rejected_untouched [of formData e i prevState rows] g by simp_all
next
  assume "\<exists>t. map_of formData ''customerId'' = Some (EntryString t)"
  then obtain t where "FormData_get formData ''customerId'' = JString t"
    by (auto simp: FormData_get_string)
  then show "errors_for (fst (createInvoice e prevState formData rows)) ''customerId'' = None"
    "errors_for (fst (updateInvoice e i prevState formData rows)) ''customerId'' = None"
    by (simp_all add: create_errors_customerId update_errors_customerId)
qed

text \<open>A form without the entry, a form with a file, and a form with the empty text.\<close>

theorem customerId_validation_witness:
  "errors_for (fst (createInvoice (example_env None None) initialState
                      [(''amount'', EntryString ''250''), (''status'', EntryString ''paid'')] []))
     ''customerId'' = Some [''PLEASE SELECT A CUSTOMER.'']
   \<and> effects_of (createInvoice (example_env None None) initialState
                      [(''amount'', EntryString ''250''), (''status'', EntryString ''paid'')] []) = []
   \<and> errors_for (fst (updateInvoice (example_env None None) ''X'' initialState
                      [(''customerId'', EntryFile), (''amount'', EntryString ''250''),
                       (''status'', EntryString ''paid'')] []))
     ''customerId'' = Some [''PLEASE SELECT A CUSTOMER.'']
   \<and> errors_for (fst (createInvoice (example_env None None) initialState
                      (example_form [] ''250'' ''paid'') [])) ''customerId'' = None"
  using customerId_validation
          [of "[(''amount'', EntryString ''250''), (''status'', EntryString ''paid'')]"
              "example_env None None" initialState "[]" "''X''"]
        customerId_validation
          [of "[(''customerId'', EntryFile), (''amount'', EntryString ''250''),
                (''status'', EntryString ''paid'')]"
              "example_env None None" initialState "[]" "''X''"]
        customerId_validation
          [of "example_form [] ''250'' ''paid''" "example_env None None" initialState "[]" "''X''"]
  by (simp add: example_form_def)

text \<open>
  The claim C3 as stated also rejects an empty \<^verbatim>\<open>customerId\<close>. With the empty text, a
  valid amount and a valid status the create handler reports no error for \<^verbatim>\<open>customerId\<close>
  and sends the INSERT, with the empty text as customer.
\<close>

theorem customerId_empty_counterexample:
  "map_of (example_form [] ''250'' ''paid'') ''customerId'' = Some (EntryString [])
   \<and> errors_for (fst (createInvoice (example_env None None) initialState
                         (example_form [] ''250'' ''paid'') [])) ''customerId'' = None
   \<and> effects_of (createInvoice (example_env None None) initialState
                    (example_form [] ''250'' ''paid'') [])
       = [Sql (INSERT (JString []) (JNumber (Finite 25000)) (JString ''paid'')
                 (JString ''2024-03-05'')),
          RevalidatePath ''/dashboard/invoices'']"
  by (simp add: create_errors_customerId createInvoice_cases example_form_def example_env_def
        FormData_get_def StringToNumber_250 round_double_25000 clock_date Let_def errors_for_def)

lemma FormData_get_not_string:
  "(\<forall>t. map_of formData name \<noteq> Some (EntryString t)) \<Longrightarrow>
   FormData_get formData name = JNull \<or> FormData_get formData name = JFile"
  by (simp add: FormData_get_def split: option.splits FormDataEntryValue.splits)

text \<open>
  Claim C4, as the code has it. When the status of the form is not exactly \<^verbatim>\<open>pending\<close> or
  \<^verbatim>\<open>paid\<close>, validation in the create and in the update handler fails with a field-level
  error for \<^verbatim>\<open>status\<close>, no statement is sent and the rows are untouched. The message is
  \<^verbatim>\<open>PLEASE SELECT AN INVOICE STATUS.\<close> when the form has no text entry for the status (it
  is missing or a file); for any other text it is the library's default for a value outside
  the enumeration, \<open>default_invalid_enum_value\<close>. The two texts \<^verbatim>\<open>pending\<close> and \<^verbatim>\<open>paid\<close>
  give no error for \<^verbatim>\<open>status\<close>.
\<close>

theorem status_validation:
  "((\<forall>t. map_of formData ''status'' \<noteq> Some (EntryString t)) \<longrightarrow>
      errors_for (fst (createInvoice e prevState formData rows)) ''status''
        = Some [''PLEASE SELECT AN INVOICE STATUS.'']
      \<and> effects_of (createInvoice e prevState formData rows) = []
      \<and> rows_of (createInvoice e prevState formData rows) = rows
      \<and> errors_for (fst (updateInvoice e i prevState formData rows)) ''status''
        = Some [''PLEASE SELECT AN INVOICE STATUS.'']
      \<and> effects_of (updateInvoice e i prevState formData rows) = []
      \<and> rows_of (updateInvoice e i prevState formData rows) = rows)
   \<and> (\<forall>t. map_of formData ''status'' = Some (EntryString t)
            \<and> t \<noteq> ''pending'' \<and> t \<noteq> ''paid'' \<longrightarrow>
      errors_for (fst (createInvoice e prevState formData rows)) ''status''
        = Some [default_invalid_enum_value [''pending'', ''paid''] t]
      \<and> effects_of (createInvoice e prevState formData rows) = []
      \<and> rows_of (createInvoice e prevState formData rows) = rows
      \<and> errors_for (fst (updateInvoice e i prevState formData rows)) ''status''
        = Some [default_invalid_enum_value [''pending'', ''paid''] t]
      \<and> effects_of (updateInvoice e i prevState formData rows) = []
      \<and> rows_of (updateInvoice e i prevState formData rows) = rows)
   \<and> (map_of formData ''status'' = Some (EntryString ''pending'')
        \<or> map_of formData ''status'' = Some (EntryString ''paid'') \<longrightarrow>
      errors_for (fst (createInvoice e prevState formData rows)) ''status'' = None
      \<and> errors_for (fst (updateInvoice e i prevState formData rows)) ''status'' = None)"
proof (intro conjI impI allI)
  assume h: "\<forall>t. map_of formData ''status'' \<noteq> Some (EntryString t)"
  note v = FormData_get_not_string [OF h]
  have g: "FormData_get formData ''status'' \<noteq> JString ''pending''"
      "FormData_get formData ''status'' \<noteq> JString ''paid''"
    using v by auto
  show "errors_for (fst (createInvoice e prevState formData rows)) ''status''
        = Some [''PLEASE SELECT AN INVOICE STATUS.'']"
    using v by (auto simp: create_errors_status)
  show "errors_for (fst (updateInvoice e i prevState formData rows)) ''status''
        = Some [''PLEASE SELECT AN INVOICE STATUS.'']"
    using v by (auto simp: update_errors_status)
  show "effects_of (createInvoice e prevState formData rows) = []"
    "rows_of (createInvoice e prevState formData rows) = rows"
    using create_rejected_untouched [of formData e prevState rows] g by simp_all
  show "effects_of (updateInvoice e i prevState formData rows) = []"
    "rows_of (updateInvoice e i prevState formData rows) = rows"
    using update_rejected_untouched [of formData e i prevState rows] g by simp_all
next
  fix t
  assume h: "map_of formData ''status'' = Some (EntryString t) \<and> t \<noteq> ''pending'' \<and> t \<noteq> ''paid''"
  then have s: "FormData_get formData ''status'' = JString t"
    by (simp add: FormData_get_string)
  have g: "FormData_get formData ''status'' \<noteq> JString ''pending''"
      "FormData_get formData ''status'' \<noteq> JString ''paid''"
    using h by (simp_all add: s)
  show "errors_for (fst (createInvoice e prevState formData rows)) ''status''
        = Some [default_invalid_enum_value [''pending'', ''paid''] t]"
    using h by (simp add: create_errors_status s)
  show "errors_for (fst (updateInvoice e i prevState formData rows)) ''status''
        = Some [default_invalid_enum_value [''pending'', ''paid''] t]"
    using h by (simp add: update_errors_status s)
  show "effects_of (createInvoice e prevState formData rows) = []"
    "rows_of (createInvoice e prevState formData rows) = rows"
    using create_rejected_untouched [of formData e prevState rows] g by simp_all
  show "effects_of (updateInvoice e i prevState formData rows) = []"
    "rows_of (updateInvoice e i prevState formData rows) = rows"
    using update_rejected_untouched [of formData e i prevState rows] g by simp_all
next
  assume "map_of formData ''status'' = Some (EntryString ''pending'')
        \<or> map_of formData ''status'' = Some (EntryString ''paid'')"
  then have s: "FormData_get formData ''status'' = JString ''pending''
        \<or> FormData_get formData ''status'' = JString ''paid''"
    by (simp add: FormData_get_string)
  show "errors_for (fst (createInvoice e prevState formData rows)) ''status'' = None"
    using s by (auto simp: create_errors_status)
  show "errors_for (fst (updateInvoice e i prevState formData rows)) ''status'' = None"
    using s by (auto simp: update_errors_status)
qed

text \<open>
  A form without a status, a form with the status \<^verbatim>\<open>Paid\<close> and a form with the status
  \<^verbatim>\<open>paid\<close>.
\<close>

theorem status_validation_witness:
  "errors_for (fst (createInvoice (example_env None None) initialState
                      [(''customerId'', EntryString ''c1''), (''amount'', EntryString ''250'')] []))
     ''status'' = Some [''PLEASE SELECT AN INVOICE STATUS.'']
   \<and> effects_of (createInvoice (example_env None None) initialState
                      [(''customerId'', EntryString ''c1''), (''amount'', EntryString ''250'')] [])
       = []
   \<and> errors_for (fst (updateInvoice (example_env None None) ''X'' initialState
                      (example_form ''c1'' ''250'' ''Paid'') [])) ''status''
       = Some [default_invalid_enum_value [''pending'', ''paid''] ''Paid'']
   \<and> errors_for (fst (createInvoice (example_env None None) initialState
                      (example_form ''c1'' ''250'' ''paid'') [])) ''status'' = None"
  using status_validation
          [of "[(''customerId'', EntryString ''c1''), (''amount'', EntryString ''250'')]"
              "example_env None None" initialState "[]" "''X''"]
        status_validation
          [of "example_form ''c1'' ''250'' ''Paid''" "example_env None None" initialState "[]"
              "''X''"]
        status_validation
          [of "example_form ''c1'' ''250'' ''paid''" "example_env None None" initialState "[]"
              "''X''"]
  by (simp add: example_form_def)

text \<open>
  The claim C4 as stated promises the select-a-status message for every wrong status. The
  parameter \<^verbatim>\<open>invalid_type_error\<close> of \<^verbatim>\<open>z.enum\<close> covers a value of the wrong type only: the
  text \<^verbatim>\<open>foo\<close> is reported as an invalid enum value, with the default message.
\<close>

theorem status_message_counterexample:
  "map_of (example_form ''c1'' ''250'' ''foo'') ''status'' = Some (EntryString ''foo'')
   \<and> errors_for (fst (createInvoice (example_env None None) initialState
                         (example_form ''c1'' ''250'' ''foo'') [])) ''status''
       = Some [''Invalid enum value. Expected '' @ [CHR 0x27] @ ''pending'' @ [CHR 0x27]
               @ '' | '' @ [CHR 0x27] @ ''paid'' @ [CHR 0x27] @ '', received ''
               @ [CHR 0x27] @ ''foo'' @ [CHR 0x27]]
   \<and> errors_for (fst (createInvoice (example_env None None) initialState
                         (example_form ''c1'' ''250'' ''foo'') [])) ''status''
       \<noteq> Some [''PLEASE SELECT AN INVOICE STATUS.'']"
  by (simp add: create_errors_status example_form_def FormData_get_def
        default_invalid_enum_value_def joinValues_def)

lemma times_100_of_int:
  assumes "0 < k" "k * 100 < 2 ^ 53"
  shows "number_times (Finite (of_int k)) (Finite 100) = Finite (of_int (k * 100))"
proof -
  have "0 < k * 100" using assms(1) by simp
  from round_double_of_int [OF this assms(2)] show ?thesis by simp
qed

lemma round_half_even_near:
  assumes "of_int z - 1 / 2 < x" "x < of_int z + 1 / 2"
  shows "round_half_even x = z"
proof -
  have f: "\<lfloor>x\<rfloor> = z \<or> \<lfloor>x\<rfloor> = z - 1"
  proof -
    have "of_int (z - 1) \<le> x" using assms(1) by simp
    then have "z - 1 \<le> \<lfloor>x\<rfloor>" by (simp only: le_floor_iff)
    moreover have "x < of_int (z + 1)" using assms(2) by simp
    then have "\<lfloor>x\<rfloor> < z + 1" by (simp only: floor_less_iff)
    ultimately show ?thesis by linarith
  qed
  show ?thesis
  proof (cases "\<lfloor>x\<rfloor> = z")
    case True
    then have "x - of_int \<lfloor>x\<rfloor> < 1 / 2" using assms(2) by simp
    then show ?thesis using True by (simp add: round_half_even_def Let_def)
  next
    case False
    with f have g: "\<lfloor>x\<rfloor> = z - 1" by simp
    then have "1 / 2 < x - of_int \<lfloor>x\<rfloor>" using assms(1) by simp
    then show ?thesis using g by (simp add: round_half_even_def Let_def)
  qed
qed

lemma round_double_nearest:
  assumes "0 < a" "pow2 k \<le> a" "a < pow2 (k + 1)"
      and "of_int z - 1 / 2 < a / pow2 (max (k - 52) (- 1074))"
      and "a / pow2 (max (k - 52) (- 1074)) < of_int z + 1 / 2"
      and "of_int z * pow2 (max (k - 52) (- 1074)) < pow2 1024"
  shows "round_double a = Finite (of_int z * pow2 (max (k - 52) (- 1074)))"
proof -
  have l: "ilog2 a = k" by (rule ilog2_unique [OF assms(1-3)])
  have r: "round_half_even (a / pow2 (max (k - 52) (- 1074))) = z"
    by (rule round_half_even_near [OF assms(4,5)])
  show ?thesis
    using assms(1,6) by (simp add: round_double_def l r Let_def)
qed

lemma round_double_1_1:
  "round_double (11 / 10) = Finite (2476979795053773 / 2251799813685248)"
proof -
  have "round_double (11 / 10) = Finite (of_int 4953959590107546 * pow2 (max (0 - 52) (- 1074)))"
    by (rule round_double_nearest) (simp_all add: pow2_def)
  then show ?thesis by (simp add: pow2_def)
qed

lemma round_double_110:
  "round_double (2476979795053773 / 2251799813685248 * 100)
     = Finite (7740561859543041 / 70368744177664)"
proof -
  have "round_double (2476979795053773 / 2251799813685248 * 100)
          = Finite (of_int 7740561859543041 * pow2 (max (6 - 52) (- 1074)))"
    by (rule round_double_nearest) (simp_all add: pow2_def)
  then show ?thesis by (simp add: pow2_def)
qed

lemma half_cent_not_integer: "\<not> Number_isInteger (Finite (25 / 2))"
proof -
  have "\<lfloor>(25::rat) / 2\<rfloor> = 12" by (rule floor_unique) simp_all
  then show ?thesis by simp
qed

lemma StringToNumber_1_1: "StringToNumber ''1.1'' = Finite (2476979795053773 / 2251799813685248)"
  by (simp add: StringToNumber_defs round_double_1_1)

lemma times_100_of_1_1:
  "number_times (Finite (2476979795053773 / 2251799813685248)) (Finite 100)
     = Finite (7740561859543041 / 70368744177664)"
  by (simp only: number_times.simps round_double_110)

lemma above_110_not_integer:
  "\<not> Number_isInteger (Finite (7740561859543041 / 70368744177664))"
proof -
  have "\<lfloor>(7740561859543041::rat) / 70368744177664\<rfloor> = 110"
    by (rule floor_unique) simp_all
  then show ?thesis by simp
qed

text \<open>
  Claim C5 says that the amount sent to the store is always a whole number of cents. At the
  amount \<^verbatim>\<open>1.1\<close>, with a customer and the status \<^verbatim>\<open>paid\<close>, validation passes and both
  handlers send the product \<^verbatim>\<open>amount * 100\<close> as the doubles give it: \<^verbatim>\<open>1.1\<close> is read as the
  double next to \<open>11/10\<close>, its product with 100 is the double above 110 (printed by
  JavaScript as \<^verbatim>\<open>110.00000000000001\<close>), and nothing rounds it to 110 before the INSERT or
  the UPDATE.
\<close>

theorem two_decimal_amount_not_integer:
  "createInvoice (example_env None None) initialState (example_form ''c1'' ''1.1'' ''paid'') []
     = (Redirected ''/dashboard/invoices'',
        [Sql (INSERT (JString ''c1'') (JNumber (Finite (7740561859543041 / 70368744177664)))
                (JString ''paid'') (JString ''2024-03-05'')),
         RevalidatePath ''/dashboard/invoices''],
        [\<lparr>invoice_id = ''new-id'', customer_id = JString ''c1'',
          amount = JNumber (Finite (7740561859543041 / 70368744177664)),
          status = JString ''paid'', date = JString ''2024-03-05''\<rparr>])
   \<and> effects_of (updateInvoice (example_env None None) ''X'' initialState
                    (example_form ''c1'' ''1.1'' ''paid'') [])
     = [Sql (UPDATE (JString ''c1'') (JNumber (Finite (7740561859543041 / 70368744177664)))
               (JString ''paid'') ''X''),
        RevalidatePath ''/dashboard/invoices'']
   \<and> \<not> Number_isInteger (Finite (7740561859543041 / 70368744177664))
   \<and> Finite (7740561859543041 / 70368744177664) \<noteq> Finite 110"
proof (intro conjI)
  have n: "ToNumber (FormData_get (example_form ''c1'' ''1.1'' ''paid'') ''amount'')
             = Finite (2476979795053773 / 2251799813685248)"
    by (simp add: example_form_def FormData_get_def StringToNumber_1_1)
  have c: "FormData_get (example_form ''c1'' ''1.1'' ''paid'') ''customerId'' = JString ''c1''"
    by (simp add: example_form_def FormData_get_def)
  have s: "FormData_get (example_form ''c1'' ''1.1'' ''paid'') ''status'' = JString ''paid''"
    by (simp add: example_form_def FormData_get_def)
  show "createInvoice (example_env None None) initialState
          (example_form ''c1'' ''1.1'' ''paid'') []
     = (Redirected ''/dashboard/invoices'',
        [Sql (INSERT (JString ''c1'') (JNumber (Finite (7740561859543041 / 70368744177664)))
                (JString ''paid'') (JString ''2024-03-05'')),
         RevalidatePath ''/dashboard/invoices''],
        [\<lparr>invoice_id = ''new-id'', customer_id = JString ''c1'',
          amount = JNumber (Finite (7740561859543041 / 70368744177664)),
          status = JString ''paid'', date = JString ''2024-03-05''\<rparr>])"
    by (subst createInvoice_accepts [OF c n _ _ s _ refl])
       (simp_all add: times_100_of_1_1 clock_date example_env_def del: number_times.simps)
  show "effects_of (updateInvoice (example_env None None) ''X'' initialState
                    (example_form ''c1'' ''1.1'' ''paid'') [])
     = [Sql (UPDATE (JString ''c1'') (JNumber (Finite (7740561859543041 / 70368744177664)))
               (JString ''paid'') ''X''),
        RevalidatePath ''/dashboard/invoices'']"
    by (subst updateInvoice_accepts [OF c n _ _ s _ refl])
       (simp_all add: times_100_of_1_1 example_env_def del: number_times.simps)
  show "\<not> Number_isInteger (Finite (7740561859543041 / 70368744177664))"
    by (rule above_110_not_integer)
  show "Finite (7740561859543041 / 70368744177664) \<noteq> Finite 110"
    by simp
qed

text \<open>
  What the product is by design. For a whole amount \<open>k\<close> with \<open>k * 100 < 2^53\<close> it is the
  integer \<open>k * 100\<close> (lemma \<open>times_100_of_int\<close>). For an amount with a fraction of a cent
  there is no whole number of cents to send, and no rounding is applied: the amount
  \<^verbatim>\<open>0.125\<close> passes validation and the INSERT carries \<open>12.5\<close>; both \<open>0.125\<close> and \<open>12.5\<close> are
  doubles, so this is not an effect of rounding.
\<close>

lemma sub_cent_amount_sent:
  "effects_of (createInvoice (example_env None None) initialState
                 (example_form ''c1'' ''0.125'' ''paid'') [])
     = [Sql (INSERT (JString ''c1'') (JNumber (Finite (25 / 2))) (JString ''paid'')
               (JString ''2024-03-05'')),
        RevalidatePath ''/dashboard/invoices'']
   \<and> \<not> Number_isInteger (Finite (25 / 2))"
  by (simp add: createInvoice_cases example_form_def example_env_def FormData_get_def
        StringToNumber_eighth round_double_12_5 clock_date Let_def half_cent_not_integer
      del: Number_isInteger.simps)

lemma update_keeps_dates:
  "map date (map (\<lambda>r. if invoice_id r = i then r\<lparr>customer_id := c, amount := a, status := s\<rparr>
                       else r) rows) = map date rows
   \<and> map invoice_id (map (\<lambda>r. if invoice_id r = i
                                then r\<lparr>customer_id := c, amount := a, status := s\<rparr>
                                else r) rows) = map invoice_id rows"
  by (induction rows) auto

text \<open>
  Claim C6. Whenever the update handler ends in the redirect, it has sent exactly one
  statement, the UPDATE of \<^verbatim>\<open>customer_id\<close>, \<^verbatim>\<open>amount\<close> (the validated amount times 100) and
  \<^verbatim>\<open>status\<close> for the given identifier, followed by the invalidation; the rows afterwards
  are the rows before with these three columns replaced in the rows of that identifier, and
  every row keeps its date and its identifier.
\<close>

theorem updateInvoice_frame:
  assumes "updateInvoice e i prevState formData rows = (Redirected p, effs, rows')"
  shows "effs = [Sql (UPDATE (FormData_get formData ''customerId'')
                        (JNumber (number_times (ToNumber (FormData_get formData ''amount''))
                                   (Finite 100)))
                        (FormData_get formData ''status'') i),
                 RevalidatePath ''/dashboard/invoices'']
       \<and> rows' = map (\<lambda>r. if invoice_id r = i
                           then r\<lparr>customer_id := FormData_get formData ''customerId'',
                                  amount := JNumber (number_times
                                              (ToNumber (FormData_get formData ''amount''))
                                              (Finite 100)),
                                  status := FormData_get formData ''status''\<rparr>
                           else r) rows
       \<and> map date rows' = map date rows
       \<and> map invoice_id rows' = map invoice_id rows"
proof -
  have 1: "effs = [Sql (UPDATE (FormData_get formData ''customerId'')
                        (JNumber (number_times (ToNumber (FormData_get formData ''amount''))
                                   (Finite 100)))
                        (FormData_get formData ''status'') i),
                 RevalidatePath ''/dashboard/invoices'']"
    using assms by (auto simp: updateInvoice_cases Let_def split: if_splits option.splits)
  have 2: "rows' = map (\<lambda>r. if invoice_id r = i
                           then r\<lparr>customer_id := FormData_get formData ''customerId'',
                                  amount := JNumber (number_times
                                              (ToNumber (FormData_get formData ''amount''))
                                              (Finite 100)),
                                  status := FormData_get formData ''status''\<rparr>
                           else r) rows"
    using assms by (auto simp: updateInvoice_cases Let_def split: if_splits option.splits)
  show ?thesis
    using 1 2 update_keeps_dates by simp
qed

text \<open>
  The update scenario: invoice \<^verbatim>\<open>X\<close> of customer \<^verbatim>\<open>C1\<close>, paid, dated 2023-08-19, updated
  with customer \<^verbatim>\<open>C2\<close>, amount \<^verbatim>\<open>10\<close> and status \<^verbatim>\<open>pending\<close>.
\<close>

theorem updateInvoice_frame_witness:
  "map date (rows_of (updateInvoice (example_env None None) ''X'' initialState
                        (example_form ''C2'' ''10'' ''pending'')
                        [\<lparr>invoice_id = ''X'', customer_id = JString ''C1'',
                          amount = JNumber (Finite 500), status = JString ''paid'',
                          date = JString ''2023-08-19''\<rparr>]))
     = [JString ''2023-08-19'']
   \<and> rows_of (updateInvoice (example_env None None) ''X'' initialState
                (example_form ''C2'' ''10'' ''pending'')
                [\<lparr>invoice_id = ''X'', customer_id = JString ''C1'',
                  amount = JNumber (Finite 500), status = JString ''paid'',
                  date = JString ''2023-08-19''\<rparr>])
     = [\<lparr>invoice_id = ''X'', customer_id = JString ''C2'',
         amount = JNumber (Finite 1000), status = JString ''pending'',
         date = JString ''2023-08-19''\<rparr>]"
proof -
  have run: "updateInvoice (example_env None None) ''X'' initialState
               (example_form ''C2'' ''10'' ''pending'')
               [\<lparr>invoice_id = ''X'', customer_id = JString ''C1'',
                 amount = JNumber (Finite 500), status = JString ''paid'',
                 date = JString ''2023-08-19''\<rparr>]
             = (Redirected ''/dashboard/invoices'',
                [Sql (UPDATE (JString ''C2'') (JNumber (Finite 1000)) (JString ''pending'') ''X''),
                 RevalidatePath ''/dashboard/invoices''],
                [\<lparr>invoice_id = ''X'', customer_id = JString ''C2'',
                  amount = JNumber (Finite 1000), status = JString ''pending'',
                  date = JString ''2023-08-19''\<rparr>])"
    by (simp add: updateInvoice_cases example_form_def example_env_def FormData_get_def
          StringToNumber_10 round_double_1000 Let_def)
  show ?thesis
    using updateInvoice_frame [OF run] by (simp add: run)
qed

text \<open>
  Claim C7. When the store raises on the statement that the create or the update handler
  sends, the handler returns the state with the database-error message of that handler
  (\<^verbatim>\<open>DATABASE ERROR: FAILED TO CREATE INVOICE.\<close>, \<^verbatim>\<open>DATABASE ERROR: FAILED TO UPDATE INVOICE.\<close>)
  and no \<^verbatim>\<open>errors\<close>; it neither throws nor redirects, the statement is its only effect (no
  invalidation), and the rows are untouched.
\<close>

theorem store_failure_is_caught:
  assumes "store_raises e st rows = Some err"
  shows "(Sql st \<in> set (effects_of (createInvoice e prevState formData rows)) \<longrightarrow>
            createInvoice e prevState formData rows =
              (Returned \<lparr>errors = None,
                         message = Some ''DATABASE ERROR: FAILED TO CREATE INVOICE.''\<rparr>,
               [Sql st], rows))
       \<and> (Sql st \<in> set (effects_of (updateInvoice e i prevState formData rows)) \<longrightarrow>
            updateInvoice e i prevState formData rows =
              (Returned \<lparr>errors = None,
                         message = Some ''DATABASE ERROR: FAILED TO UPDATE INVOICE.''\<rparr>,
               [Sql st], rows))"
proof (intro conjI impI)
  assume "Sql st \<in> set (effects_of (createInvoice e prevState formData rows))"
  then show "createInvoice e prevState formData rows =
              (Returned \<lparr>errors = None,
                         message = Some ''DATABASE ERROR: FAILED TO CREATE INVOICE.''\<rparr>,
               [Sql st], rows)"
    using assms by (auto simp: createInvoice_cases Let_def split: if_splits option.splits)
next
  assume "Sql st \<in> set (effects_of (updateInvoice e i prevState formData rows))"
  then show "updateInvoice e i prevState formData rows =
              (Returned \<lparr>errors = None,
                         message = Some ''DATABASE ERROR: FAILED TO UPDATE INVOICE.''\<rparr>,
               [Sql st], rows)"
    using assms by (auto simp: updateInvoice_cases Let_def split: if_splits option.splits)
qed

text \<open>
  A store that rejects every statement, for a valid form.
\<close>

theorem store_failure_is_caught_witness:
  "createInvoice (example_env (Some (Error ''connection lost'')) None) initialState
     (example_form ''c1'' ''250'' ''paid'') []
     = (Returned \<lparr>errors = None,
                  message = Some ''DATABASE ERROR: FAILED TO CREATE INVOICE.''\<rparr>,
        [Sql (INSERT (JString ''c1'') (JNumber (Finite 25000)) (JString ''paid'')
                (JString ''2024-03-05''))], [])
   \<and> updateInvoice (example_env (Some (Error ''connection lost'')) None) ''X'' initialState
       (example_form ''c1'' ''250'' ''paid'') []
     = (Returned \<lparr>errors = None,
                  message = Some ''DATABASE ERROR: FAILED TO UPDATE INVOICE.''\<rparr>,
        [Sql (UPDATE (JString ''c1'') (JNumber (Finite 25000)) (JString ''paid'') ''X'')], [])"
proof -
  have raises: "store_raises (example_env (Some (Error ''connection lost'')) None) st []
                  = Some (Error ''connection lost'')" for st
    by (simp add: example_env_def)
  have c: "Sql (INSERT (JString ''c1'') (JNumber (Finite 25000)) (JString ''paid'')
                  (JString ''2024-03-05''))
           \<in> set (effects_of (createInvoice (example_env (Some (Error ''connection lost'')) None)
                                initialState (example_form ''c1'' ''250'' ''paid'') []))"
    by (simp add: createInvoice_cases example_form_def example_env_def FormData_get_def
          StringToNumber_250 round_double_25000 clock_date Let_def)
  have u: "Sql (UPDATE (JString ''c1'') (JNumber (Finite 25000)) (JString ''paid'') ''X'')
           \<in> set (effects_of (updateInvoice (example_env (Some (Error ''connection lost'')) None)
                                ''X'' initialState (example_form ''c1'' ''250'' ''paid'') []))"
    by (simp add: updateInvoice_cases example_form_def example_env_def FormData_get_def
          StringToNumber_250 round_double_25000 Let_def)
  show ?thesis
    using store_failure_is_caught [OF raises, of _ initialState
            "example_form ''c1'' ''250'' ''paid''" "''X''"] c u
    by blast
qed

text \<open>
  Claim C8. The sign-in handler returns nothing when the delegate returns normally, the
  message \<^verbatim>\<open>INVALID CREDENTIALS.\<close> when the delegate raises an \<^verbatim>\<open>AuthError\<close> of type
  \<^verbatim>\<open>CredentialsSignin\<close>, the message \<^verbatim>\<open>SOMETHING WENT WRONG.\<close> for an \<^verbatim>\<open>AuthError\<close> of any
  other type, and it raises again, unchanged, any error that is not an \<^verbatim>\<open>AuthError\<close>.
\<close>

theorem authenticate_classifies:
  "(signIn e ''credentials'' formData = None \<longrightarrow>
      authenticate e prevState formData = Returned None)
   \<and> (signIn e ''credentials'' formData = Some (AuthError ''CredentialsSignin'') \<longrightarrow>
      authenticate e prevState formData = Returned (Some ''INVALID CREDENTIALS.''))
   \<and> (\<forall>ty. signIn e ''credentials'' formData = Some (AuthError ty)
            \<and> ty \<noteq> ''CredentialsSignin'' \<longrightarrow>
      authenticate e prevState formData = Returned (Some ''SOMETHING WENT WRONG.''))
   \<and> (\<forall>x. signIn e ''credentials'' formData = Some (Error x) \<longrightarrow>
      authenticate e prevState formData = Thrown (Error x))"
  by (simp add: authenticate_def)

text \<open>
  The four outcomes of the delegate.
\<close>

theorem authenticate_classifies_witness:
  "authenticate (example_env None None) None [] = Returned None
   \<and> authenticate (example_env None (Some (AuthError ''CredentialsSignin''))) None []
       = Returned (Some ''INVALID CREDENTIALS.'')
   \<and> authenticate (example_env None (Some (AuthError ''CallbackRouteError''))) None []
       = Returned (Some ''SOMETHING WENT WRONG.'')
   \<and> authenticate (example_env None (Some (Error ''NEXT_REDIRECT''))) None []
       = Thrown (Error ''NEXT_REDIRECT'')"
  using authenticate_classifies [of "example_env None None" "[]" None]
        authenticate_classifies
          [of "example_env None (Some (AuthError ''CredentialsSignin''))" "[]" None]
        authenticate_classifies
          [of "example_env None (Some (AuthError ''CallbackRouteError''))" "[]" None]
        authenticate_classifies [of "example_env None (Some (Error ''NEXT_REDIRECT''))" "[]" None]
  by (simp add: example_env_def)

lemma deleteInvoice_cases:
  "deleteInvoice e i rows =
     (case store_raises e (DELETE i) rows of
        None \<Rightarrow>
          (Returned \<lparr>errors = None, message = Some ''DELETED INVOICE.''\<rparr>,
           [Sql (DELETE i), RevalidatePath ''/dashboard/invoices''],
           filter (\<lambda>r. invoice_id r \<noteq> i) rows)
      | Some err \<Rightarrow>
          (Returned \<lparr>errors = None,
                     message = Some ''DATABASE ERROR: FAILED TO DELETE INVOICE.''\<rparr>,
           [Sql (DELETE i)], rows))"
  by (simp add: deleteInvoice_def sql_def split: option.splits)

text \<open>
  Claim C9. For every identifier the delete handler sends the one DELETE of that
  identifier. When the store accepts it, the handler invalidates \<^verbatim>\<open>/dashboard/invoices\<close> and
  returns the message \<^verbatim>\<open>DELETED INVOICE.\<close>, without a redirect; when the store raises, it
  returns the message \<^verbatim>\<open>DATABASE ERROR: FAILED TO DELETE INVOICE.\<close>. It always returns one
  of the two states, also when called a second time on the rows the first call left; and a
  second accepted deletion changes no row.
\<close>

theorem deleteInvoice_never_throws:
  "(store_raises e (DELETE i) rows = None \<longrightarrow>
      deleteInvoice e i rows =
        (Returned \<lparr>errors = None, message = Some ''DELETED INVOICE.''\<rparr>,
         [Sql (DELETE i), RevalidatePath ''/dashboard/invoices''],
         filter (\<lambda>r. invoice_id r \<noteq> i) rows))
   \<and> (\<forall>err. store_raises e (DELETE i) rows = Some err \<longrightarrow>
      deleteInvoice e i rows =
        (Returned \<lparr>errors = None,
                   message = Some ''DATABASE ERROR: FAILED TO DELETE INVOICE.''\<rparr>,
         [Sql (DELETE i)], rows))
   \<and> (fst (deleteInvoice e i rows)
         = Returned \<lparr>errors = None, message = Some ''DELETED INVOICE.''\<rparr>
      \<or> fst (deleteInvoice e i rows)
         = Returned \<lparr>errors = None,
                     message = Some ''DATABASE ERROR: FAILED TO DELETE INVOICE.''\<rparr>)
   \<and> (fst (deleteInvoice e' i (rows_of (deleteInvoice e i rows)))
         = Returned \<lparr>errors = None, message = Some ''DELETED INVOICE.''\<rparr>
      \<or> fst (deleteInvoice e' i (rows_of (deleteInvoice e i rows)))
         = Returned \<lparr>errors = None,
                     message = Some ''DATABASE ERROR: FAILED TO DELETE INVOICE.''\<rparr>)
   \<and> (store_raises e (DELETE i) rows = None
        \<and> store_raises e' (DELETE i) (filter (\<lambda>r. invoice_id r \<noteq> i) rows) = None \<longrightarrow>
      rows_of (deleteInvoice e' i (rows_of (deleteInvoice e i rows)))
        = rows_of (deleteInvoice e i rows))"
  by (simp add: deleteInvoice_cases split: option.splits)

text \<open>
  Deleting invoice \<^verbatim>\<open>X\<close>, deleting it again from the empty table, and a store that
  raises.
\<close>

theorem deleteInvoice_never_throws_witness:
  "deleteInvoice (example_env None None) ''X''
     [\<lparr>invoice_id = ''X'', customer_id = JString ''C1'', amount = JNumber (Finite 500),
       status = JString ''paid'', date = JString ''2023-08-19''\<rparr>]
     = (Returned \<lparr>errors = None, message = Some ''DELETED INVOICE.''\<rparr>,
        [Sql (DELETE ''X''), RevalidatePath ''/dashboard/invoices''], [])
   \<and> deleteInvoice (example_env None None) ''X'' []
     = (Returned \<lparr>errors = None, message = Some ''DELETED INVOICE.''\<rparr>,
        [Sql (DELETE ''X''), RevalidatePath ''/dashboard/invoices''], [])
   \<and> deleteInvoice (example_env (Some (Error ''connection lost'')) None) ''X'' []
     = (Returned \<lparr>errors = None,
                  message = Some ''DATABASE ERROR: FAILED TO DELETE INVOICE.''\<rparr>,
        [Sql (DELETE ''X'')], [])"
  using deleteInvoice_never_throws
          [of "example_env None None" "''X''"
              "[\<lparr>invoice_id = ''X'', customer_id = JString ''C1'',
                 amount = JNumber (Finite 500), status = JString ''paid'',
                 date = JString ''2023-08-19''\<rparr>]" "example_env None None"]
        deleteInvoice_never_throws [of "example_env None None" "''X''" "[]" "example_env None None"]
        deleteInvoice_never_throws
          [of "example_env (Some (Error ''connection lost'')) None" "''X''" "[]"
              "example_env None None"]
  by (simp add: example_env_def)

lemma create_errors_any:
  "errors_for (fst (createInvoice e prevState formData rows)) field =
     (if (\<exists>t. FormData_get formData ''customerId'' = JString t)
          \<and> ToNumber (FormData_get formData ''amount'') \<noteq> NaN
          \<and> \<not> number_le (ToNumber (FormData_get formData ''amount'')) (Finite 0)
          \<and> (FormData_get formData ''status'' = JString ''pending''
             \<or> FormData_get formData ''status'' = JString ''paid'')
      then None
      else fieldErrors
             (snd (ZodString_parse (Some ''PLEASE SELECT A CUSTOMER.'') [''customerId'']
                     (FormData_get formData ''customerId''))
              @ snd (ZodNumber_parse True
                       [MinCheck (Finite 0) False ''PLEASE ENTER AN AMOUNT GREATER THAN $0.'']
                       None [''amount''] (FormData_get formData ''amount''))
              @ snd (ZodEnum_parse [''pending'', ''paid'']
                       (Some ''PLEASE SELECT AN INVOICE STATUS.'') [''status'']
                       (FormData_get formData ''status''))) field)"
  by (simp add: createInvoice_cases errors_for_def Let_def split: option.splits)

lemma update_errors_any:
  "errors_for (fst (updateInvoice e i prevState formData rows)) field =
     (if (\<exists>t. FormData_get formData ''customerId'' = JString t)
          \<and> ToNumber (FormData_get formData ''amount'') \<noteq> NaN
          \<and> \<not> number_le (ToNumber (FormData_get formData ''amount'')) (Finite 0)
          \<and> (FormData_get formData ''status'' = JString ''pending''
             \<or> FormData_get formData ''status'' = JString ''paid'')
      then None
      else fieldErrors
             (snd (ZodString_parse (Some ''PLEASE SELECT A CUSTOMER.'') [''customerId'']
                     (FormData_get formData ''customerId''))
              @ snd (ZodNumber_parse True
                       [MinCheck (Finite 0) False ''PLEASE ENTER AN AMOUNT GREATER THAN $0.'']
                       None [''amount''] (FormData_get formData ''amount''))
              @ snd (ZodEnum_parse [''pending'', ''paid'']
                       (Some ''PLEASE SELECT AN INVOICE STATUS.'') [''status'']
                       (FormData_get formData ''status''))) field)"
  by (simp add: updateInvoice_cases errors_for_def Let_def split: option.splits)

lemma create_rejects_iff:
  "(\<exists>errs. fst (createInvoice e prevState formData rows)
        = Returned \<lparr>errors = Some errs,
                    message = Some ''MISSING FIELDS. FAILED TO CREATE INVOICE.''\<rparr>)
   = (\<not> ((\<exists>t. FormData_get formData ''customerId'' = JString t)
          \<and> ToNumber (FormData_get formData ''amount'') \<noteq> NaN
          \<and> \<not> number_le (ToNumber (FormData_get formData ''amount'')) (Finite 0)
          \<and> (FormData_get formData ''status'' = JString ''pending''
             \<or> FormData_get formData ''status'' = JString ''paid'')))"
  by (simp add: createInvoice_cases Let_def split: option.splits)

lemma update_rejects_iff:
  "(\<exists>errs. fst (updateInvoice e i prevState formData rows)
        = Returned \<lparr>errors = Some errs,
                    message = Some ''MISSING FIELDS. FAILED TO UPDATE INVOICE.''\<rparr>)
   = (\<not> ((\<exists>t. FormData_get formData ''customerId'' = JString t)
          \<and> ToNumber (FormData_get formData ''amount'') \<noteq> NaN
          \<and> \<not> number_le (ToNumber (FormData_get formData ''amount'')) (Finite 0)
          \<and> (FormData_get formData ''status'' = JString ''pending''
             \<or> FormData_get formData ''status'' = JString ''paid'')))"
  by (simp add: updateInvoice_cases Let_def split: option.splits)

text \<open>
  Claim C10. The create and the update variant are both the full schema without \<^verbatim>\<open>id\<close>
  and \<^verbatim>\<open>date\<close>, with the keys \<^verbatim>\<open>customerId\<close>, \<^verbatim>\<open>amount\<close>, \<^verbatim>\<open>status\<close>; they parse every
  object to the same result; and on every form the create handler rejects exactly when the
  update handler does, with the same messages under every field.
\<close>

theorem create_update_same_validation:
  "CreateInvoice = omit [''id'', ''date''] FormSchema
   \<and> UpdateInvoice = omit [''id'', ''date''] FormSchema
   \<and> map fst CreateInvoice = [''customerId'', ''amount'', ''status'']
   \<and> safeParse CreateInvoice data = safeParse UpdateInvoice data
   \<and> ((\<exists>errs. fst (createInvoice e prevState formData rows)
            = Returned \<lparr>errors = Some errs,
                        message = Some ''MISSING FIELDS. FAILED TO CREATE INVOICE.''\<rparr>)
      = (\<exists>errs. fst (updateInvoice e' i prevState' formData rows')
            = Returned \<lparr>errors = Some errs,
                        message = Some ''MISSING FIELDS. FAILED TO UPDATE INVOICE.''\<rparr>))
   \<and> errors_for (fst (createInvoice e prevState formData rows)) field
     = errors_for (fst (updateInvoice e' i prevState' formData rows')) field"
proof (intro conjI)
  show "CreateInvoice = omit [''id'', ''date''] FormSchema" by (rule CreateInvoice_def)
  show "UpdateInvoice = omit [''id'', ''date''] FormSchema" by (rule UpdateInvoice_def)
  show "map fst CreateInvoice = [''customerId'', ''amount'', ''status'']"
    by (simp add: CreateInvoice_shape)
  show "safeParse CreateInvoice data = safeParse UpdateInvoice data"
    by (simp add: UpdateInvoice_shape)
  show "(\<exists>errs. fst (createInvoice e prevState formData rows)
            = Returned \<lparr>errors = Some errs,
                        message = Some ''MISSING FIELDS. FAILED TO CREATE INVOICE.''\<rparr>)
      = (\<exists>errs. fst (updateInvoice e' i prevState' formData rows')
            = Returned \<lparr>errors = Some errs,
                        message = Some ''MISSING FIELDS. FAILED TO UPDATE INVOICE.''\<rparr>)"
    by (simp only: create_rejects_iff update_rejects_iff)
  show "errors_for (fst (createInvoice e prevState formData rows)) field
     = errors_for (fst (updateInvoice e' i prevState' formData rows')) field"
    by (simp only: create_errors_any update_errors_any)
qed

text \<open>
  One form, rejected by both handlers with the same message for the amount.
\<close>

theorem create_update_same_validation_witness:
  "errors_for (fst (createInvoice (example_env None None) initialState
                      (example_form ''c1'' ''0'' ''foo'') [])) ''amount''
     = Some [''PLEASE ENTER AN AMOUNT GREATER THAN $0.'']
   \<and> errors_for (fst (updateInvoice (example_env None None) ''X'' initialState
                      (example_form ''c1'' ''0'' ''foo'') [])) ''amount''
     = Some [''PLEASE ENTER AN AMOUNT GREATER THAN $0.'']"
proof -
  have u: "errors_for (fst (updateInvoice (example_env None None) ''X'' initialState
                      (example_form ''c1'' ''0'' ''foo'') [])) ''amount''
     = Some [''PLEASE ENTER AN AMOUNT GREATER THAN $0.'']"
    by (simp add: update_errors_amount example_form_def FormData_get_def StringToNumber_0)
  show ?thesis
    using create_update_same_validation
            [of "[]" "example_env None None" initialState "example_form ''c1'' ''0'' ''foo''"
                "[]" "example_env None None" "''X''" initialState "[]" "''amount''"] u
    by simp
qed

end
